theory Spec2Isabelle
  imports Main "HOL-Library.Monad_Syntax"
begin

section \<open>Data model\<close>

text \<open>
  The schema tree of \<^verbatim>\<open>src/generator.ts\<close> (its declarations, \<^verbatim>\<open>types/AST\<close>, are not
  among the sources; the shapes below are the ones the generator and the optimizer read and
  write). A node is a JavaScript object: its fields are the common ones
  (\<^verbatim>\<open>standaloneName\<close>, \<^verbatim>\<open>comment\<close>, \<^verbatim>\<open>deprecated\<close>, \<^verbatim>\<open>keyName\<close>) and a payload selected by
  \<^verbatim>\<open>type\<close>. The type of child references is a parameter \<open>'r\<close>: it is the tree itself for
  finite trees, and an address for object graphs in a store, where identity matters.
\<close>

datatype json = JString string | JNumber int | JBool bool | JNull

datatype ast_type =
    ANY | ARRAY | BOOLEAN | CUSTOM_TYPE | ENUM | INTERFACE | INTERSECTION | LITERAL | NEVER
  | NULL | NUMBER | OBJECT | REFERENCE | STRING | TUPLE | UNION | UNKNOWN

datatype 'r interface_param = TInterfaceParam
  (p_keyName: string) (p_ast: 'r) (isRequired: bool) (isPatternProperty: bool)
  (isUnreachableDefinition: bool)

datatype 'r enum_param = TEnumParam (e_keyName: string) (e_ast: 'r)

datatype 'r payload =
    TAny | TUnknown | TNever | TNull | TBoolean | TNumber | TString | TObject
  | TLiteral json
  | TReference string
  | TCustomType string
  | TArray 'r
  | TTuple "'r list" int int "'r option"
  | TUnion "'r list"
  | TIntersection "'r list"
  | TInterface "'r interface_param list" "'r list"
  | TEnum "'r enum_param list"

datatype 'r node = Node
  (payload: "'r payload")
  (standaloneName: "string option")
  (comment: "string option")
  (deprecated: bool)
  (keyName: "string option")

text \<open>A finite tree: every child is a tree again.\<close>

datatype ast = Ast (unAst: "ast node")

text \<open>The option bundle (\<^verbatim>\<open>Options\<close> of \<^verbatim>\<open>./index\<close>), with the fields the two passes read.\<close>

record options =
  declareExternallyReferenced :: bool
  unknownAny :: bool
  strictIndexSignatures :: bool
  enableConstEnums :: bool
  bannerComment :: string

text \<open>
  Helpers that the generator imports and whose code is not among the sources
  (\<^verbatim>\<open>toSafeString\<close> of \<^verbatim>\<open>./utils\<close>, \<^verbatim>\<open>hasComment\<close> of \<^verbatim>\<open>./types/AST\<close>) and the built-in
  \<^verbatim>\<open>JSON.stringify\<close> are parameters: every theorem holds for all of them. \<^verbatim>\<open>hasComment\<close>
  reads the \<^verbatim>\<open>comment\<close> and \<^verbatim>\<open>deprecated\<close> fields of a node.
\<close>

record env =
  toSafeString :: "string \<Rightarrow> string"
  stringify :: "json \<Rightarrow> string"
  hasComment :: "string option \<Rightarrow> bool \<Rightarrow> bool"

definition atype :: "'r node \<Rightarrow> ast_type" where
  "atype n = (case payload n of
       TAny \<Rightarrow> ANY | TUnknown \<Rightarrow> UNKNOWN | TNever \<Rightarrow> NEVER | TNull \<Rightarrow> NULL
     | TBoolean \<Rightarrow> BOOLEAN | TNumber \<Rightarrow> NUMBER | TString \<Rightarrow> STRING | TObject \<Rightarrow> OBJECT
     | TLiteral _ \<Rightarrow> LITERAL | TReference _ \<Rightarrow> REFERENCE | TCustomType _ \<Rightarrow> CUSTOM_TYPE
     | TArray _ \<Rightarrow> ARRAY | TTuple _ _ _ _ \<Rightarrow> TUPLE | TUnion _ \<Rightarrow> UNION
     | TIntersection _ \<Rightarrow> INTERSECTION | TInterface _ _ \<Rightarrow> INTERFACE | TEnum _ \<Rightarrow> ENUM)"

definition withPayload :: "'r payload \<Rightarrow> 'r node \<Rightarrow> 'r node" where
  "withPayload p n = Node p (standaloneName n) (comment n) (deprecated n) (keyName n)"

definition withStandaloneName :: "string option \<Rightarrow> 'r node \<Rightarrow> 'r node" where
  "withStandaloneName s n = Node (payload n) s (comment n) (deprecated n) (keyName n)"

definition withAst :: "'r \<Rightarrow> 'r interface_param \<Rightarrow> 'r interface_param" where
  "withAst a m =
     TInterfaceParam (p_keyName m) a (isRequired m) (isPatternProperty m)
       (isUnreachableDefinition m)"

text \<open>JavaScript truthiness of an optional string: present and not empty.\<close>

definition truthy :: "string option \<Rightarrow> bool" where
  "truthy s = (case s of None \<Rightarrow> False | Some v \<Rightarrow> v \<noteq> [])"

text \<open>
  Modelled from the spec: the constants \<^verbatim>\<open>T_ANY\<close>, \<^verbatim>\<open>T_UNKNOWN\<close>, \<^verbatim>\<open>T_STRING\<close> and the
  constructor \<^verbatim>\<open>T_INTERFACE(params, comment)\<close> of \<^verbatim>\<open>./types/AST\<close> are missing from the
  sources. They are the payload-free nodes \<open>Any\<close>, \<open>Unknown\<close>, \<open>String\<close> and an anonymous
  \<open>Interface\<close> with the given members, no super types and the given comment.
\<close>

definition T_ANY :: "'r node" where
  "T_ANY = Node TAny None None False None"

definition T_UNKNOWN :: "'r node" where
  "T_UNKNOWN = Node TUnknown None None False None"

definition T_STRING :: "'r node" where
  "T_STRING = Node TString None None False None"

definition T_INTERFACE :: "'r interface_param list \<Rightarrow> string option \<Rightarrow> 'r node" where
  "T_INTERFACE ps c = Node (TInterface ps []) None c False None"

section \<open>Strings and arrays of JavaScript\<close>

definition nl :: string where
  "nl = [CHR 0x0A]"

definition sq :: string where
  "sq = [CHR 0x27]"

text \<open>\<^verbatim>\<open>Array.prototype.join\<close>.\<close>

fun join :: "string \<Rightarrow> string list \<Rightarrow> string" where
  "join sep [] = []"
| "join sep [x] = x"
| "join sep (x # y # ys) = x @ sep @ join sep (y # ys)"

text \<open>\<^verbatim>\<open>.filter(Boolean)\<close> on an array of strings drops the empty ones.\<close>

definition filterBoolean :: "string list \<Rightarrow> string list" where
  "filterBoolean xs = filter (\<lambda>s. s \<noteq> []) xs"

text \<open>\<^verbatim>\<open>String.prototype.split\<close> at one separator character.\<close>

fun split :: "char \<Rightarrow> string \<Rightarrow> string list" where
  "split c [] = [[]]"
| "split c (x # xs) =
     (if x = c then [] # split c xs
      else (case split c xs of [] \<Rightarrow> [[x]] | l # ls \<Rightarrow> (x # l) # ls))"

text \<open>\<^verbatim>\<open>uniqBy\<close> of lodash keeps the first element of every key.\<close>

fun uniqByAcc :: "('a \<Rightarrow> 'k) \<Rightarrow> 'k list \<Rightarrow> 'a list \<Rightarrow> 'a list" where
  "uniqByAcc f seen [] = []"
| "uniqByAcc f seen (x # xs) =
     (if f x \<in> set seen then uniqByAcc f seen xs else x # uniqByAcc f (f x # seen) xs)"

definition uniqBy :: "('a \<Rightarrow> 'k) \<Rightarrow> 'a list \<Rightarrow> 'a list" where
  "uniqBy f xs = uniqByAcc f [] xs"

text \<open>\<^verbatim>\<open>xs.slice(0, n)\<close>: a negative \<open>n\<close> counts from the end.\<close>

definition slice0 :: "'a list \<Rightarrow> int \<Rightarrow> 'a list" where
  "slice0 xs n = (if 0 \<le> n then take (nat n) xs else take (nat (int (length xs) + n)) xs)"

text \<open>\<^verbatim>\<open>xs[i]\<close> inside a join: an index out of range gives \<^verbatim>\<open>undefined\<close>, joined as the
  empty string.\<close>

definition at :: "string list \<Rightarrow> int \<Rightarrow> string" where
  "at xs i = (if 0 \<le> i \<and> i < int (length xs) then xs ! nat i else [])"

definition endsWith :: "string \<Rightarrow> char \<Rightarrow> bool" where
  "endsWith s c = (s \<noteq> [] \<and> last s = c)"

section \<open>Rendering: the code shared by trees and object graphs\<close>

text \<open>
  \<^verbatim>\<open>escapeKeyName\<close>: the two regular expressions are \<^verbatim>\<open>/[A-Za-z_$]/\<close> on the first character
  and \<^verbatim>\<open>/^[\w$]+$/\<close> on the whole key.
\<close>

definition identStart :: "char set" where
  "identStart = set ''ABCDEFGHIJKLMNOPQRSTUVWXYZabcdefghijklmnopqrstuvwxyz_$''"

definition wordChar :: "char set" where
  "wordChar = set ''ABCDEFGHIJKLMNOPQRSTUVWXYZabcdefghijklmnopqrstuvwxyz0123456789_$''"

definition indexSignature :: string where
  "indexSignature = ''[k: string]''"

definition escapeKeyName :: "env \<Rightarrow> string \<Rightarrow> string" where
  "escapeKeyName e k =
     (if k \<noteq> [] \<and> hd k \<in> identStart \<and> (\<forall>c \<in> set k. c \<in> wordChar) then k
      else if k = indexSignature then k
      else stringify e (JString k))"

definition generateComment :: "string option \<Rightarrow> bool \<Rightarrow> string" where
  "generateComment c d =
     join nl ([''/**''] @ (if d then ['' * @deprecated''] else [])
       @ (case c of None \<Rightarrow> [] | Some t \<Rightarrow> map (\<lambda>l. '' * '' @ l) (split (CHR 0x0A) t))
       @ ['' */''])"

definition isAnnotatedString :: "ast_type \<Rightarrow> bool" where
  "isAnnotatedString key =
     (key = STRING \<or> key = ENUM \<or> key = LITERAL \<or> key = NUMBER \<or> key = UNKNOWN)"

datatype mapEntryKind = BASIC | ARRAY_ENTRY | MAP_ENTRY

definition getMapEntryPrefix :: "mapEntryKind option \<Rightarrow> string" where
  "getMapEntryPrefix k =
     (case k of Some BASIC \<Rightarrow> ''getMapEntry'' | Some ARRAY_ENTRY \<Rightarrow> ''getMapEntrySequence''
      | Some MAP_ENTRY \<Rightarrow> ''getMapEntryMap'' | None \<Rightarrow> [])"

text \<open>The accessor text that the three getter branches share.\<close>

definition getter :: "env \<Rightarrow> string \<Rightarrow> string \<Rightarrow> string \<Rightarrow> string" where
  "getter e keyName' prefix ctor =
     ''get '' @ escapeKeyName e keyName' @ ''() {'' @ nl @ '' return '' @ prefix
       @ ''(this.node, '' @ sq @ escapeKeyName e keyName' @ sq @ '', this.uri, '' @ ctor @ '')''
       @ nl @ ''}''"

definition generateEndNodes ::
  "env \<Rightarrow> string \<Rightarrow> string \<Rightarrow> ast_type \<Rightarrow> bool \<Rightarrow> string option \<Rightarrow> string option \<Rightarrow> bool
     \<Rightarrow> mapEntryKind option \<Rightarrow> string" where
  "generateEndNodes e keyName' type' paramType isRequired' standaloneName' comment' deprecated'
       mapEntryKind' =
     (let mapEntryPrefix = getMapEntryPrefix mapEntryKind';
          commentString =
            (if truthy comment' then generateComment comment' deprecated' @ nl else [])
      in if truthy standaloneName' then
           commentString @ getter e keyName' mapEntryPrefix (the standaloneName')
         else if isAnnotatedString paramType then
           commentString @ getter e keyName' mapEntryPrefix ''AnnotatedString''
         else if paramType = BOOLEAN then
           commentString @ getter e keyName' mapEntryPrefix ''AnnotatedBoolean''
         else
           commentString @ escapeKeyName e keyName' @ (if isRequired' then [] else ''?'')
             @ '': '' @ type')"

text \<open>
  Modelled from the spec: \<^verbatim>\<open>hasStandaloneName\<close> of \<^verbatim>\<open>./types/AST\<close> is missing from the
  sources. A node has a standalone name when the field is present; as everywhere in
  \<^verbatim>\<open>generator.ts\<close>, where the name is tested by truthiness, the empty name counts as absent.
\<close>

definition hasStandaloneName :: "'r node \<Rightarrow> bool" where
  "hasStandaloneName n = truthy (standaloneName n)"

definition setParams :: "'r node \<Rightarrow> 'r list" where
  "setParams n = (case payload n of TUnion ps \<Rightarrow> ps | TIntersection ps \<Rightarrow> ps | _ \<Rightarrow> [])"

definition orElse :: "string option \<Rightarrow> string option \<Rightarrow> string option" where
  "orElse a b = (if truthy a then a else b)"

text \<open>
  \<^verbatim>\<open>handleUnionRecursively\<close>. Its caller has checked \<^verbatim>\<open>ast.params.length === 1\<close>, so
  \<^verbatim>\<open>ast.params[0]\<close> exists; the first equation of the case is never reached.
\<close>

definition handleUnionRecursively ::
  "env \<Rightarrow> ('r \<Rightarrow> 'r node) \<Rightarrow> 'r node \<Rightarrow> string \<Rightarrow> string \<Rightarrow> bool \<Rightarrow> string" where
  "handleUnionRecursively e look n keyName' type' isRequired' =
     (case setParams n of
        [] \<Rightarrow> []
      | r0 # _ \<Rightarrow>
          (let p0 = look r0 in
           case payload p0 of
             TArray el \<Rightarrow>
               generateEndNodes e keyName' type' (atype (look el)) isRequired'
                 (orElse (standaloneName p0) (standaloneName (look el)))
                 (comment n) (deprecated n) (Some ARRAY_ENTRY)
           | TInterface ms sups \<Rightarrow>
               (if \<not> truthy (standaloneName p0) \<and> length ms = 1
                   \<and> escapeKeyName e (p_keyName (hd ms)) = indexSignature
                then generateEndNodes e keyName' type' (atype (look (p_ast (hd ms)))) isRequired'
                       (standaloneName (look (p_ast (hd ms)))) (comment n) (deprecated n)
                       (Some MAP_ENTRY)
                else generateEndNodes e keyName' type' (atype p0) isRequired'
                       (orElse (standaloneName n) (standaloneName p0)) (comment n)
                       (deprecated n) (Some BASIC))
           | _ \<Rightarrow>
               generateEndNodes e keyName' type' (atype p0) isRequired'
                 (orElse (standaloneName n) (standaloneName p0)) (comment n) (deprecated n)
                 (Some BASIC)))"

definition commentOf :: "env \<Rightarrow> 'r node \<Rightarrow> string" where
  "commentOf e n =
     (if hasComment e (comment n) (deprecated n)
      then generateComment (comment n) (deprecated n) @ nl else [])"

definition plainField :: "env \<Rightarrow> 'r node \<Rightarrow> string \<Rightarrow> bool \<Rightarrow> string \<Rightarrow> string" where
  "plainField e n keyName' isRequired' type' =
     (if hasComment e (comment n) (deprecated n) \<and> \<not> truthy (standaloneName n)
      then generateComment (comment n) (deprecated n) @ nl else [])
     @ escapeKeyName e keyName' @ (if isRequired' then [] else ''?'') @ '': '' @ type'"

text \<open>
  The callback of the second \<^verbatim>\<open>.map\<close> of \<^verbatim>\<open>generateInterface\<close>: the classification of
  one member, given the text \<open>type'\<close> already generated for its node. The branch that
  returns nothing (an index signature beside named keys) gives \<^verbatim>\<open>undefined\<close>, which
  \<^verbatim>\<open>join\<close> writes as the empty string.
\<close>

definition interfaceParam ::
  "env \<Rightarrow> ('r \<Rightarrow> 'r node) \<Rightarrow> bool \<Rightarrow> bool \<Rightarrow> string \<Rightarrow> 'r \<Rightarrow> string \<Rightarrow> string" where
  "interfaceParam e look hasKeys isRequired' keyName' a type' =
     (let n = look a; named = (escapeKeyName e keyName' \<noteq> indexSignature) in
      if isAnnotatedString (atype n) \<and> named then
        commentOf e n @ getter e keyName' ''getMapEntry'' ''AnnotatedString''
      else if atype n = BOOLEAN \<and> named then
        commentOf e n @ getter e keyName' ''getMapEntry'' ''AnnotatedBoolean''
      else if atype n = INTERFACE \<and> truthy (standaloneName n) \<and> named then
        commentOf e n @ getter e keyName' ''getMapEntry'' (the (standaloneName n))
      else
        (case payload n of
           TArray el \<Rightarrow>
             (if named then
                generateEndNodes e keyName' type' (atype (look el)) isRequired'
                  (standaloneName (look el)) (comment n) (deprecated n) (Some ARRAY_ENTRY)
              else if hasKeys then []
              else plainField e n keyName' isRequired' type')
         | _ \<Rightarrow>
             (if (atype n = UNION \<or> atype n = INTERSECTION) \<and> named
                 \<and> length (setParams n) = 1 then
                handleUnionRecursively e look n keyName' type' isRequired'
              else
                (case payload n of
                   TInterface ms sups \<Rightarrow>
                     (if \<not> truthy (standaloneName n) \<and> length ms = 1
                         \<and> escapeKeyName e (p_keyName (hd ms)) = indexSignature then
                        generateEndNodes e keyName' type' (atype (look (p_ast (hd ms))))
                          isRequired' (standaloneName (look (p_ast (hd ms)))) (comment n)
                          (deprecated n) (Some MAP_ENTRY)
                      else if hasKeys then
                        (if named then plainField e n keyName' isRequired' type' else [])
                      else plainField e n keyName' isRequired' type')
                 | _ \<Rightarrow>
                     (if hasKeys then
                        (if named then plainField e n keyName' isRequired' type' else [])
                      else plainField e n keyName' isRequired' type')))))"

definition reachableParams :: "'r interface_param list \<Rightarrow> 'r interface_param list" where
  "reachableParams ms = filter (\<lambda>m. \<not> isPatternProperty m \<and> \<not> isUnreachableDefinition m) ms"

definition generateInterface ::
  "env \<Rightarrow> ('r \<Rightarrow> 'r node) \<Rightarrow> ('r \<Rightarrow> string) \<Rightarrow> 'r interface_param list \<Rightarrow> string" where
  "generateInterface e look gt ms =
     (let allKeys = map (\<lambda>m. escapeKeyName e (p_keyName m))
            (filter (\<lambda>m. escapeKeyName e (p_keyName m) \<noteq> indexSignature) (reachableParams ms))
      in ''{'' @ nl
         @ join nl (map (\<lambda>m. interfaceParam e look (allKeys \<noteq> []) (isRequired m) (p_keyName m)
                                (p_ast m) (gt (p_ast m)))
                      (reachableParams ms))
         @ (if allKeys \<noteq> [] then
              nl @ '' get __keys() {'' @ nl @ '' return [''
                @ join '','' (map (\<lambda>k. sq @ k @ sq) allKeys) @ ''] }'' @ nl
            else [])
         @ nl @ ''}'')"

definition generateSetOperation :: "('r \<Rightarrow> string) \<Rightarrow> 'r node \<Rightarrow> string" where
  "generateSetOperation gt n =
     (let members = map gt (setParams n);
          separator = (if atype n = UNION then ''|'' else ''&'')
      in if length members = 1 then hd members
         else ''('' @ join ('' '' @ separator @ '' '') members @ '')'')"

subsection \<open>Tuples\<close>

definition paramsToString :: "string list \<Rightarrow> string" where
  "paramsToString params = ''['' @ join '', '' params @ '']''"

definition addSpreadParam :: "string option \<Rightarrow> string list \<Rightarrow> string list" where
  "addSpreadParam spread params =
     (case spread of None \<Rightarrow> params | Some t \<Rightarrow> params @ [''...('' @ t @ '')[]''])"

text \<open>The \<^verbatim>\<open>for\<close> loop that adds one tuple shape per index \<open>i\<close>, from \<^verbatim>\<open>minItems\<close> on.\<close>

function tupleLoop ::
  "string list \<Rightarrow> string option \<Rightarrow> int \<Rightarrow> string list \<Rightarrow> string list \<Rightarrow> string list" where
  "tupleLoop paramsList spread i cumulativeParamsList typesToUnion =
     (if i < int (length paramsList) then
        (let c1 = cumulativeParamsList @ [at paramsList i];
             c2 = (if i = int (length paramsList) - 1 then addSpreadParam spread c1 else c1)
         in tupleLoop paramsList spread (i + 1) c2 (typesToUnion @ [paramsToString c2]))
      else typesToUnion)"
  by pat_completeness auto
termination
  by (relation "measure (\<lambda>(ps, s, i, c, t). nat (int (length ps) - i))") auto

declare tupleLoop.simps [simp del]

text \<open>
  The text of \<^verbatim>\<open>generateType(options.unknownAny ? T_UNKNOWN : T_ANY, options)\<close>: the two
  constants have no name and no key name.
\<close>

definition anyText :: "options \<Rightarrow> string" where
  "anyText opts = (if unknownAny opts then ''unknown'' else ''any'')"

definition generateTuple ::
  "options \<Rightarrow> ('r \<Rightarrow> string) \<Rightarrow> 'r list \<Rightarrow> int \<Rightarrow> int \<Rightarrow> 'r option \<Rightarrow> string" where
  "generateTuple opts gt params minItems astMaxItems astSpreadParam =
     (let maxItems = (if astMaxItems = 0 then - 1 else astMaxItems);
          len = int (length params);
          paramsList = map gt params
            @ (if maxItems > len \<and> astSpreadParam = None
               then replicate (nat (maxItems - len)) (anyText opts) else []);
          spread =
            (case astSpreadParam of
               Some s \<Rightarrow> Some (gt s)
             | None \<Rightarrow> (if minItems > 0 \<and> minItems > len \<and> maxItems < 0
                        then Some (anyText opts) else None))
      in if int (length paramsList) > minItems then
           join ''|'' (tupleLoop paramsList spread minItems (slice0 paramsList minItems)
                        [paramsToString (slice0 paramsList minItems)])
         else paramsToString (addSpreadParam spread paramsList))"

subsection \<open>\<^verbatim>\<open>generateRawType\<close> and \<^verbatim>\<open>generateTypeUnmemoized\<close>\<close>

text \<open>
  The two functions call \<^verbatim>\<open>generateType\<close> on children; that call is the parameter \<open>gt\<close>.
  \<open>look\<close> reads a child (the source reads \<^verbatim>\<open>ast.params.type\<close> and the like). The
  \<^verbatim>\<open>switch\<close> has no case for an \<open>Enum\<close>: an enum always carries its name and is answered
  by the first test; without one the source returns \<^verbatim>\<open>undefined\<close>, here the empty text.
\<close>

definition generateRawType ::
  "env \<Rightarrow> options \<Rightarrow> ('r \<Rightarrow> 'r node) \<Rightarrow> ('r \<Rightarrow> string) \<Rightarrow> 'r node \<Rightarrow> string" where
  "generateRawType e opts look gt n =
     (if hasStandaloneName n then toSafeString e (the (standaloneName n))
      else case payload n of
          TAny \<Rightarrow> ''any''
        | TArray el \<Rightarrow>
            (let type' = gt el in
             if endsWith type' (CHR 0x22) then ''('' @ type' @ '')[]'' else type' @ ''[]'')
        | TBoolean \<Rightarrow> ''boolean''
        | TInterface ms sups \<Rightarrow> generateInterface e look gt ms
        | TIntersection ps \<Rightarrow> generateSetOperation gt n
        | TLiteral v \<Rightarrow> stringify e v
        | TNever \<Rightarrow> ''never''
        | TNumber \<Rightarrow> ''number''
        | TNull \<Rightarrow> ''null''
        | TObject \<Rightarrow> ''object''
        | TReference s \<Rightarrow> s
        | TString \<Rightarrow> ''string''
        | TTuple ps minItems maxItems spreadParam \<Rightarrow>
            generateTuple opts gt ps minItems maxItems spreadParam
        | TUnion ps \<Rightarrow> generateSetOperation gt n
        | TUnknown \<Rightarrow> ''unknown''
        | TCustomType s \<Rightarrow> s
        | TEnum ps \<Rightarrow> [])"

definition generateTypeUnmemoized ::
  "env \<Rightarrow> options \<Rightarrow> ('r \<Rightarrow> 'r node) \<Rightarrow> ('r \<Rightarrow> string) \<Rightarrow> 'r node \<Rightarrow> string" where
  "generateTypeUnmemoized e opts look gt n =
     (let type' = generateRawType e opts look gt n in
      if strictIndexSignatures opts \<and> keyName n = Some indexSignature
      then type' @ '' | undefined'' else type')"

text \<open>The children on which \<^verbatim>\<open>generateRawType\<close> calls \<^verbatim>\<open>generateType\<close>, in the order of
  the calls.\<close>

definition renderKids :: "'r node \<Rightarrow> 'r list" where
  "renderKids n =
     (if hasStandaloneName n then []
      else case payload n of
          TArray el \<Rightarrow> [el]
        | TTuple ps minItems maxItems spreadParam \<Rightarrow>
            ps @ (case spreadParam of None \<Rightarrow> [] | Some s \<Rightarrow> [s])
        | TUnion ps \<Rightarrow> ps
        | TIntersection ps \<Rightarrow> ps
        | TInterface ms sups \<Rightarrow> map p_ast (reachableParams ms)
        | _ \<Rightarrow> [])"

section \<open>Rendering a finite tree\<close>

text \<open>
  On a finite tree the memo table of \<^verbatim>\<open>generateType\<close> never changes an answer (the
  object-graph model below has the table; \<open>generateTypes_tree\<close> relates the two), so
  \<^verbatim>\<open>generateType\<close> is \<^verbatim>\<open>generateTypeUnmemoized\<close> with itself for the children.
\<close>

lemma generateInterface_cong:
  "(\<And>c. c \<in> set (map p_ast (reachableParams ms)) \<Longrightarrow> gt c = gt' c) \<Longrightarrow>
   generateInterface e look gt ms = generateInterface e look gt' ms"
  unfolding generateInterface_def Let_def
  by (intro arg_cong2[where f="(@)"] arg_cong[where f="join nl"] map_cong refl) simp

lemma generateSetOperation_cong:
  "(\<And>c. c \<in> set (setParams n) \<Longrightarrow> gt c = gt' c) \<Longrightarrow>
   generateSetOperation gt n = generateSetOperation gt' n"
proof -
  assume h: "\<And>c. c \<in> set (setParams n) \<Longrightarrow> gt c = gt' c"
  then have m: "map gt (setParams n) = map gt' (setParams n)" by simp
  show ?thesis unfolding generateSetOperation_def m ..
qed

lemma generateTuple_cong:
  assumes "\<And>c. c \<in> set ps \<Longrightarrow> gt c = gt' c"
    and "\<And>c. sp = Some c \<Longrightarrow> gt c = gt' c"
  shows "generateTuple opts gt ps mn mx sp = generateTuple opts gt' ps mn mx sp"
proof -
  from assms(1) have m: "map gt ps = map gt' ps" by simp
  from assms(2) have s: "(case sp of Some s \<Rightarrow> Some (gt s) | None \<Rightarrow> x)
      = (case sp of Some s \<Rightarrow> Some (gt' s) | None \<Rightarrow> x)" for x
    by (cases sp) simp_all
  show ?thesis unfolding generateTuple_def m s ..
qed

lemma generateTypeUnmemoized_cong:
  assumes "\<And>c. c \<in> set (renderKids n) \<Longrightarrow> gt c = gt' c"
  shows "generateTypeUnmemoized e opts look gt n = generateTypeUnmemoized e opts look gt' n"
proof -
  have "generateRawType e opts look gt n = generateRawType e opts look gt' n"
  proof (cases "hasStandaloneName n")
    case True
    then show ?thesis by (simp add: generateRawType_def)
  next
    case False
    show ?thesis
    proof (cases "payload n")
      case (TArray el)
      with False assms show ?thesis by (simp add: generateRawType_def renderKids_def)
    next
      case (TTuple ps mn mx sp)
      with False assms have "generateTuple opts gt ps mn mx sp = generateTuple opts gt' ps mn mx sp"
        by (intro generateTuple_cong) (auto simp: renderKids_def)
      with False TTuple show ?thesis by (simp add: generateRawType_def)
    next
      case (TUnion ps)
      with False assms have "generateSetOperation gt n = generateSetOperation gt' n"
        by (intro generateSetOperation_cong) (auto simp: renderKids_def setParams_def)
      with False TUnion show ?thesis by (simp add: generateRawType_def)
    next
      case (TIntersection ps)
      with False assms have "generateSetOperation gt n = generateSetOperation gt' n"
        by (intro generateSetOperation_cong) (auto simp: renderKids_def setParams_def)
      with False TIntersection show ?thesis by (simp add: generateRawType_def)
    next
      case (TInterface ms sups)
      with False assms have "generateInterface e look gt ms = generateInterface e look gt' ms"
        by (intro generateInterface_cong) (auto simp: renderKids_def)
      with False TInterface show ?thesis by (simp add: generateRawType_def)
    qed (simp_all add: generateRawType_def)
  qed
  then show ?thesis by (simp add: generateTypeUnmemoized_def)
qed

lemma p_ast_in_set: "p_ast m \<in> set_interface_param m"
  by (cases m) simp

lemma renderKids_set_node: "c \<in> set (renderKids n) \<Longrightarrow> c \<in> set_node n"
  by (cases n)
     (auto simp: renderKids_def reachableParams_def split: payload.splits option.splits if_splits
           intro: p_ast_in_set)

lemma size_interface_param_less: "x \<in> set_interface_param m \<Longrightarrow> f x < size_interface_param f m"
  by (cases m) auto

lemma size_list_less: "x \<in> set xs \<Longrightarrow> f x < Suc (size_list f xs)"
  using size_list_estimation'[of x xs "f x" f] by simp

lemma size_payload_less:
  assumes "x \<in> set_payload p"
  shows "f x < size_payload f p"
proof (cases p)
  case (TTuple ps mn mx sp)
  with assms consider "x \<in> set ps" | "sp = Some x" by (auto split: option.splits)
  then show ?thesis
  proof cases
    case 1
    from size_list_less[OF this, of f] TTuple show ?thesis by simp
  next
    case 2
    with TTuple show ?thesis by simp
  qed
next
  case (TInterface ms sups)
  with assms consider m where "m \<in> set ms" "x \<in> set_interface_param m" | "x \<in> set sups"
    by auto
  then show ?thesis
  proof cases
    case 1
    from size_interface_param_less[OF 1(2), of f] size_list_less[OF 1(1), of "size_interface_param f"]
    show ?thesis using TInterface by simp
  next
    case 2
    from size_list_less[OF this, of f] TInterface show ?thesis by simp
  qed
next
  case (TEnum es)
  with assms obtain m where m: "m \<in> set es" "x \<in> set_enum_param m" by auto
  have "f x < size_enum_param f m" using m(2) by (cases m) auto
  with size_list_less[OF m(1), of "size_enum_param f"] TEnum show ?thesis by simp
qed (use assms size_list_less[of x _ f] in \<open>auto\<close>)

lemma size_child: "c \<in> set_node n \<Longrightarrow> size c < size (Ast n)"
  by (cases n) (auto dest: size_payload_less[where f=size])

lemma size_in_payload: "c \<in> set_payload (payload n) \<Longrightarrow> size c < Suc (size_node size n)"
  by (cases n) (auto dest: size_payload_less[where f=size])

function generateTypeT :: "env \<Rightarrow> options \<Rightarrow> ast \<Rightarrow> string" where
  "generateTypeT e opts (Ast n) =
     generateTypeUnmemoized e opts unAst
       (\<lambda>c. if c \<in> set (renderKids n) then generateTypeT e opts c else []) n"
  by pat_completeness auto
termination
  by (relation "measure (\<lambda>(e, opts, t). size t)") (auto dest!: renderKids_set_node size_child)

declare generateTypeT.simps [simp del]

lemma generateTypeT_unfold:
  "generateTypeT e opts (Ast n) = generateTypeUnmemoized e opts unAst (generateTypeT e opts) n"
  by (simp add: generateTypeT.simps cong: generateTypeUnmemoized_cong)

section \<open>The optimizer: the rules shared by trees and object graphs\<close>

text \<open>\<^verbatim>\<open>omitStandaloneName\<close>: a copy of the node without its name, except for an \<open>Enum\<close>.\<close>

definition omitStandaloneName :: "'r node \<Rightarrow> 'r node" where
  "omitStandaloneName n = (case payload n of TEnum ps \<Rightarrow> n | _ \<Rightarrow> withStandaloneName None n)"

text \<open>\<^verbatim>\<open>comment ? {...T_STRING, comment} : T_STRING\<close>.\<close>

definition stringWithComment :: "string option \<Rightarrow> 'r node" where
  "stringWithComment c = (if truthy c then Node TString None c False None else T_STRING)"

text \<open>The test \<^verbatim>\<open>x.standaloneName && x.type === 'STRING'\<close> of the \<open>Array\<close> and
  \<open>Interface\<close> rules.\<close>

definition namedString :: "'r node \<Rightarrow> bool" where
  "namedString n = (truthy (standaloneName n) \<and> atype n = STRING)"

text \<open>\<^verbatim>\<open>Object.assign(ast, {params: ps})\<close> on a node whose parameters are a list of nodes.\<close>

definition withParams :: "'r list \<Rightarrow> 'r node \<Rightarrow> 'r node" where
  "withParams ps n =
     (case payload n of
        TTuple qs minItems maxItems spreadParam \<Rightarrow>
          withPayload (TTuple ps minItems maxItems spreadParam) n
      | TUnion qs \<Rightarrow> withPayload (TUnion ps) n
      | TIntersection qs \<Rightarrow> withPayload (TIntersection ps) n
      | _ \<Rightarrow> n)"

definition interfaceParams :: "'r node \<Rightarrow> 'r interface_param list" where
  "interfaceParams n = (case payload n of TInterface ms sups \<Rightarrow> ms | _ \<Rightarrow> [])"

text \<open>Rule (a), \<^verbatim>\<open>[A, B, C, null] -> [A, B, C]\<close>.\<close>

definition dropNull :: "('r \<Rightarrow> 'r node) \<Rightarrow> 'r list \<Rightarrow> 'r list" where
  "dropNull look ps =
     (if \<exists>p \<in> set ps. atype (look p) = NULL then filter (\<lambda>p. atype (look p) \<noteq> NULL) ps
      else ps)"

text \<open>
  Rules (b) to (d): the three early returns. The result is the node returned, if one of
  the rules fires.
\<close>

definition collapse :: "('r \<Rightarrow> 'r node) \<Rightarrow> 'r node \<Rightarrow> 'r list \<Rightarrow> 'r node option" where
  "collapse look n ps =
     (if \<exists>p \<in> set ps. atype (look p) = ANY then Some T_ANY
      else if \<exists>p \<in> set ps. atype (look p) = UNKNOWN then Some T_UNKNOWN
      else if \<forall>p \<in> set ps. atype (look p) = LITERAL \<or> atype (look p) = STRING
                \<or> atype (look p) = NULL
      then Some (stringWithComment (comment n))
      else None)"

text \<open>
  Rule (e), \<^verbatim>\<open>[A (named), A] -> [A (named)]\<close>. \<open>same\<close> is the result of the \<^verbatim>\<open>every\<close>
  that compares the texts generated without the names.
\<close>

definition keepNamed :: "('r \<Rightarrow> 'r node) \<Rightarrow> bool \<Rightarrow> 'r list \<Rightarrow> 'r list" where
  "keepNamed look same ps =
     (if same \<and> (\<exists>p \<in> set ps. standaloneName (look p) \<noteq> None)
      then filter (\<lambda>p. standaloneName (look p) \<noteq> None) ps else ps)"

text \<open>
  Rule (f), \<^verbatim>\<open>[A, B, B] -> [A, B]\<close>: \<open>texts\<close> are the texts generated for the parameters,
  in order.
\<close>

definition uniqParams :: "string list \<Rightarrow> 'r list \<Rightarrow> 'r list" where
  "uniqParams texts ps =
     (let params = map fst (uniqBy snd (zip ps texts)) in
      if length params \<noteq> length ps then params else ps)"

text \<open>Rule (g): the two nested \<^verbatim>\<open>forEach\<close> loops collect the members whose key name
  is not yet in \<^verbatim>\<open>acc\<close>.\<close>

definition pushParam :: "'r interface_param list \<Rightarrow> 'r interface_param \<Rightarrow> 'r interface_param list"
  where
  "pushParam acc p = (if \<exists>a \<in> set acc. p_keyName a = p_keyName p then acc else acc @ [p])"

definition mergeParams :: "('r \<Rightarrow> 'r node) \<Rightarrow> 'r list \<Rightarrow> 'r interface_param list" where
  "mergeParams look ps =
     foldl (\<lambda>acc param. foldl pushParam acc (interfaceParams (look param))) [] ps"

definition allInterfaces :: "('r \<Rightarrow> 'r node) \<Rightarrow> 'r list \<Rightarrow> bool" where
  "allInterfaces look ps = (length ps > 1 \<and> (\<forall>p \<in> set ps. atype (look p) = INTERFACE))"

section \<open>Optimizing a finite tree\<close>

text \<open>
  \<^verbatim>\<open>optimize\<close> on a tree, where no node is reached twice: the set \<^verbatim>\<open>processed\<close> holds the
  nodes on the path and the nodes already returned, so its only hits are the call
  \<^verbatim>\<open>optimize(ast, options, processed)\<close> of the \<open>Interface\<close> rule on the node itself and
  the last \<^verbatim>\<open>params.map(_ => optimize(_, options, processed))\<close> of the set rule, whose
  parameters are results of earlier calls: nodes already in \<^verbatim>\<open>processed\<close>, or one of
  the leaves \<^verbatim>\<open>T_STRING\<close>, \<^verbatim>\<open>T_ANY\<close>, \<^verbatim>\<open>T_UNKNOWN\<close>. Both return their argument. The
  object-graph model below has the set, the store and the memo table.
\<close>

definition unnameString :: "ast \<Rightarrow> ast" where
  "unnameString t =
     (if namedString (unAst t) then Ast (stringWithComment (comment (unAst t))) else t)"

text \<open>Rules (e) and (f) on the parameters left by rules (a) to (d).\<close>

definition dedupT :: "env \<Rightarrow> options \<Rightarrow> ast list \<Rightarrow> ast list" where
  "dedupT e opts ps =
     (let same = (\<forall>p \<in> set ps.
             generateTypeT e opts (Ast (omitStandaloneName (unAst p)))
             = generateTypeT e opts (Ast (omitStandaloneName (unAst (hd ps)))));
          ps2 = keepNamed unAst same ps
      in uniqParams (map (generateTypeT e opts) ps2) ps2)"

definition optimizeSet :: "env \<Rightarrow> options \<Rightarrow> ast node \<Rightarrow> ast list \<Rightarrow> ast" where
  "optimizeSet e opts n optimized =
     (let ps1 = dropNull unAst optimized in
      case collapse unAst n ps1 of
        Some r \<Rightarrow> Ast r
      | None \<Rightarrow>
          (let ps3 = dedupT e opts ps1
           in if allInterfaces unAst ps3
              then Ast (withParams [Ast (T_INTERFACE (mergeParams unAst ps3) (comment n))] n)
              else Ast (withParams ps3 n)))"

function optimizeT :: "env \<Rightarrow> options \<Rightarrow> ast \<Rightarrow> ast" where
  "optimizeT e opts (Ast n) =
     (case payload n of
        TLiteral v \<Rightarrow> Ast (stringWithComment (comment n))
      | TArray el \<Rightarrow> Ast (withPayload (TArray (unnameString (optimizeT e opts el))) n)
      | TTuple ps minItems maxItems spreadParam \<Rightarrow>
          Ast (withParams (map (optimizeT e opts) ps) n)
      | TInterface ms sups \<Rightarrow>
          Ast (withPayload
                (TInterface
                  (map (\<lambda>m. withAst (unnameString (optimizeT e opts (p_ast m))) m) ms) sups) n)
      | TIntersection ps \<Rightarrow> optimizeSet e opts n (map (optimizeT e opts) ps)
      | TUnion ps \<Rightarrow> optimizeSet e opts n (map (optimizeT e opts) ps)
      | _ \<Rightarrow> Ast n)"
  by pat_completeness auto
termination
  by (relation "measure (\<lambda>(e, opts, t). size t)")
     (auto intro!: size_in_payload, metis p_ast_in_set)

declare optimizeT.simps [simp del]

section \<open>Object graphs: the store, the memo table and the visited set\<close>

text \<open>
  Nodes are objects with identity, they may be shared and lie on cycles, and the optimizer
  writes into them. A node is an address into a store; \<open>free\<close> is the first unused
  address. \<open>memo\<close> is the table of \<^verbatim>\<open>memoize(generateTypeUnmemoized)\<close>: lodash keys it by
  the first argument only, the node, and the table belongs to the module, so it lives as
  long as the process. \<open>processed\<close> is the visited set that one call of \<^verbatim>\<open>optimize\<close>
  passes down and that the calls share.
\<close>

type_synonym ref = nat

record state =
  heap :: "ref \<Rightarrow> ref node"
  free :: ref
  processed :: "ref set"
  memo :: "ref \<rightharpoonup> string"

text \<open>The constant objects \<^verbatim>\<open>T_ANY\<close>, \<^verbatim>\<open>T_UNKNOWN\<close>, \<^verbatim>\<open>T_STRING\<close> have fixed addresses.\<close>

definition refANY :: ref where
  "refANY = 0"

definition refUNKNOWN :: ref where
  "refUNKNOWN = 1"

definition refSTRING :: ref where
  "refSTRING = 2"

definition constants :: "(ref \<Rightarrow> ref node) \<Rightarrow> bool" where
  "constants h = (h refANY = T_ANY \<and> h refUNKNOWN = T_UNKNOWN \<and> h refSTRING = T_STRING)"

definition alloc :: "ref node \<Rightarrow> state \<Rightarrow> ref \<times> state" where
  "alloc n s = (free s, s\<lparr>heap := (heap s)(free s := n), free := Suc (free s)\<rparr>)"

text \<open>Returning a node value: one of the constants, or a new object
  (\<^verbatim>\<open>{...T_STRING, comment: c}\<close>, \<^verbatim>\<open>T_INTERFACE(acc, c)\<close>).\<close>

definition returnNode :: "ref node \<Rightarrow> state \<Rightarrow> ref \<times> state" where
  "returnNode n s =
     (if n = T_ANY then (refANY, s)
      else if n = T_UNKNOWN then (refUNKNOWN, s)
      else if n = T_STRING then (refSTRING, s)
      else alloc n s)"

definition assign :: "ref \<Rightarrow> (ref node \<Rightarrow> ref node) \<Rightarrow> state \<Rightarrow> state" where
  "assign r f s = s\<lparr>heap := (heap s)(r := f (heap s r))\<rparr>"

subsection \<open>\<^verbatim>\<open>generateType\<close>, memoized\<close>

definition textOf :: "('r \<times> string) list \<Rightarrow> 'r \<Rightarrow> string" where
  "textOf al r = (case map_of al r of Some t \<Rightarrow> t | None \<Rightarrow> [])"

text \<open>
  \<^verbatim>\<open>generateType = memoize(generateTypeUnmemoized)\<close> on the node \<open>r\<close>. A node found in the
  table is answered from it, whatever the options are and whatever the node holds now.
  Otherwise \<^verbatim>\<open>generateTypeUnmemoized\<close> runs: it calls \<^verbatim>\<open>generateType\<close> on the children
  (\<open>renderKids\<close>, in this order; \<open>rec\<close> is \<^verbatim>\<open>generateType\<close> on a list of nodes, one after the
  other), and only when it has returned is the text stored.
\<close>

definition generateNode ::
  "env \<Rightarrow> options \<Rightarrow> (ref \<Rightarrow> ref node)
     \<Rightarrow> ((ref \<rightharpoonup> string) \<Rightarrow> ref list \<Rightarrow> (string list \<times> (ref \<rightharpoonup> string)) option)
     \<Rightarrow> (ref \<rightharpoonup> string) \<Rightarrow> ref \<Rightarrow> (string \<times> (ref \<rightharpoonup> string)) option" where
  "generateNode e opts h rec c r =
     (case c r of
        Some t \<Rightarrow> Some (t, c)
      | None \<Rightarrow>
          do {
            (ts, c') \<leftarrow> rec c (renderKids (h r));
            let t = generateTypeUnmemoized e opts h (textOf (zip (renderKids (h r)) ts)) (h r);
            Some (t, c'(r \<mapsto> t))
          })"

lemma generateNode_mono [partial_function_mono]:
  assumes "\<And>c rs. mono_option (\<lambda>f. R f c rs)"
  shows "mono_option (\<lambda>f. generateNode e opts h (R f) c r)"
  unfolding generateNode_def Let_def
  by (cases "c r") (auto intro!: partial_function_mono assms simp: split_beta)

text \<open>\<^verbatim>\<open>generateType\<close> on a list of nodes. A call that never returns is \<open>None\<close>.\<close>

partial_function (option) generateTypes ::
  "env \<Rightarrow> options \<Rightarrow> (ref \<Rightarrow> ref node) \<Rightarrow> (ref \<rightharpoonup> string) \<Rightarrow> ref list
     \<Rightarrow> (string list \<times> (ref \<rightharpoonup> string)) option" where
  "generateTypes e opts h c rs =
     (case rs of
        [] \<Rightarrow> Some ([], c)
      | r # rest \<Rightarrow>
          do {
            (t, c1) \<leftarrow> generateNode e opts h (generateTypes e opts h) c r;
            (ts, c2) \<leftarrow> generateTypes e opts h c1 rest;
            Some (t # ts, c2)
          })"

declare generateTypes.simps [code]

definition generateType ::
  "env \<Rightarrow> options \<Rightarrow> (ref \<Rightarrow> ref node) \<Rightarrow> (ref \<rightharpoonup> string) \<Rightarrow> ref
     \<Rightarrow> (string \<times> (ref \<rightharpoonup> string)) option" where
  "generateType e opts h c r = generateNode e opts h (generateTypes e opts h) c r"

text \<open>
  \<^verbatim>\<open>generateTypeUnmemoized(n, options)\<close> in the store: the children go through the
  memoized \<^verbatim>\<open>generateType\<close>. It is also \<^verbatim>\<open>generateType\<close> on a new object with the fields
  \<open>n\<close> (a copy made by \<^verbatim>\<open>omitStandaloneName\<close> or \<^verbatim>\<open>omit\<close>): the table cannot know the
  copy, and the entry written for it is never read, since the copy is dropped after the
  call; that entry is not kept here.
\<close>

definition generateTypeFresh ::
  "env \<Rightarrow> options \<Rightarrow> (ref \<Rightarrow> ref node) \<Rightarrow> (ref \<rightharpoonup> string) \<Rightarrow> ref node
     \<Rightarrow> (string \<times> (ref \<rightharpoonup> string)) option" where
  "generateTypeFresh e opts h c n =
     do {
       (ts, c') \<leftarrow> generateTypes e opts h c (renderKids n);
       Some (generateTypeUnmemoized e opts h (textOf (zip (renderKids n) ts)) n, c')
     }"

subsection \<open>\<^verbatim>\<open>optimize\<close>\<close>

text \<open>
  The \<^verbatim>\<open>every\<close> of rule (e): for each parameter the two texts are generated on copies
  without the names; the loop stops at the first parameter whose text differs from the text
  of the first parameter \<open>r0\<close>.
\<close>

fun everySame ::
  "env \<Rightarrow> options \<Rightarrow> (ref \<Rightarrow> ref node) \<Rightarrow> ref \<Rightarrow> (ref \<rightharpoonup> string) \<Rightarrow> ref list
     \<Rightarrow> (bool \<times> (ref \<rightharpoonup> string)) option" where
  "everySame e opts h r0 c [] = Some (True, c)"
| "everySame e opts h r0 c (r # rs) =
     do {
       (a, c1) \<leftarrow> generateTypeFresh e opts h c (omitStandaloneName (h r));
       (b, c2) \<leftarrow> generateTypeFresh e opts h c1 (omitStandaloneName (h r0));
       if a = b then everySame e opts h r0 c2 rs else Some (False, c2)
     }"

text \<open>
  Rules (e) and (f) on the set node \<open>r\<close>, after rules (a) to (d): the parameters of
  \<open>r\<close> are replaced in place; the texts come from \<^verbatim>\<open>generateType\<close> and fill the memo table.
\<close>

definition dedupParams :: "env \<Rightarrow> options \<Rightarrow> ref \<Rightarrow> state \<Rightarrow> state option" where
  "dedupParams e opts r s =
     do {
       (same, c1) \<leftarrow> everySame e opts (heap s) (hd (setParams (heap s r))) (memo s)
                       (setParams (heap s r));
       let s1 = assign r (withParams (keepNamed (heap s) same (setParams (heap s r))))
                  (s\<lparr>memo := c1\<rparr>);
       (texts, c2) \<leftarrow> generateTypes e opts (heap s1) (memo s1) (setParams (heap s1 r));
       Some (assign r (withParams (uniqParams texts (setParams (heap s1 r)))) (s1\<lparr>memo := c2\<rparr>))
     }"

text \<open>The second \<^verbatim>\<open>.map\<close> of the \<open>Interface\<close> rule and the test of the \<open>Array\<close> rule:
  a named \<open>String\<close> is replaced by an anonymous one.\<close>

definition unnamed :: "ref \<Rightarrow> state \<Rightarrow> ref \<times> state" where
  "unnamed a s =
     (if namedString (heap s a) then returnNode (stringWithComment (comment (heap s a))) s
      else (a, s))"

fun unnameParams :: "ref interface_param list \<Rightarrow> state \<Rightarrow> ref interface_param list \<times> state"
  where
  "unnameParams [] s = ([], s)"
| "unnameParams (m # ms) s =
     (let (a, s1) = unnamed (p_ast m) s; (ms', s2) = unnameParams ms s1
      in (withAst a m # ms', s2))"

definition withInterfaceParams :: "'r interface_param list \<Rightarrow> 'r node \<Rightarrow> 'r node" where
  "withInterfaceParams ms n =
     (case payload n of TInterface qs sups \<Rightarrow> withPayload (TInterface ms sups) n | _ \<Rightarrow> n)"

text \<open>\<^verbatim>\<open>Object.assign(_, {ast: a})\<close> on the \<open>i\<close>-th member object of the interface \<open>r\<close>.\<close>

definition assignParamAst :: "ref \<Rightarrow> nat \<Rightarrow> ref \<Rightarrow> state \<Rightarrow> state" where
  "assignParamAst r i a s =
     assign r (\<lambda>n. withInterfaceParams
                 ((interfaceParams n)[i := withAst a (interfaceParams n ! i)]) n) s"

definition arrayParams :: "'r node \<Rightarrow> 'r \<Rightarrow> 'r" where
  "arrayParams n d = (case payload n of TArray el \<Rightarrow> el | _ \<Rightarrow> d)"

text \<open>
  The \<open>Array\<close> rule after the element is optimized to \<open>el\<close>:
  \<^verbatim>\<open>Object.assign(ast, {params: el})\<close>, then a named \<open>String\<close> element is replaced.
\<close>

definition arrayRule :: "ref \<Rightarrow> ref \<Rightarrow> state \<Rightarrow> state" where
  "arrayRule r el s1 =
     (let s2 = assign r (withPayload (TArray el)) s1;
          (a, s3) = unnamed (arrayParams (heap s2 r) el) s2
      in assign r (withPayload (TArray a)) s3)"

text \<open>The \<open>Interface\<close> rule after the members are optimized: the second \<^verbatim>\<open>.map\<close>.\<close>

definition interfaceRule :: "ref \<Rightarrow> state \<Rightarrow> state" where
  "interfaceRule r s1 =
     (let (ms', s2) = unnameParams (interfaceParams (heap s1 r)) s1
      in assign r (withInterfaceParams ms') s2)"

text \<open>The set rule after the parameters are optimized to \<open>ps'\<close>:
  \<^verbatim>\<open>Object.assign(ast, {params: ps'})\<close>, then rule (a).\<close>

definition nullRule :: "ref \<Rightarrow> ref list \<Rightarrow> state \<Rightarrow> state" where
  "nullRule r ps' s1 =
     (let s2 = assign r (withParams ps') s1
      in assign r (withParams (dropNull (heap s2) (setParams (heap s2 r)))) s2)"

text \<open>
  The end of the rule for \<open>Union\<close> and \<open>Intersection\<close> on the node \<open>r\<close>: \<open>collapsed\<close>
  is the node that rules (b) to (d) return, if one of them fires; otherwise rules (e) and
  (f), then the merge of interfaces or the last \<^verbatim>\<open>params.map(_ => optimize(_, ...))\<close>.
\<close>

definition setRules ::
  "env \<Rightarrow> options
     \<Rightarrow> ((ref \<times> (ref \<times> nat) option) list \<Rightarrow> state \<Rightarrow> (ref list \<times> state) option)
     \<Rightarrow> ref \<Rightarrow> state \<Rightarrow> ref node option \<Rightarrow> (ref \<times> state) option" where
  "setRules e opts rec r s3 collapsed =
     (case collapsed of
        Some result \<Rightarrow> Some (returnNode result s3)
      | None \<Rightarrow>
          do {
            s4 \<leftarrow> dedupParams e opts r s3;
            if allInterfaces (heap s4) (setParams (heap s4 r)) then
              (let (i, s5) = alloc (T_INTERFACE
                      (mergeParams (heap s4) (setParams (heap s4 r)))
                      (comment (heap s4 r))) s4
               in Some (r, assign r (withParams [i]) s5))
            else
              do {
                (ps'', s5) \<leftarrow> rec (map (\<lambda>p. (p, None)) (setParams (heap s4 r))) s4;
                Some (r, assign r (withParams ps'') s5)
              }
          })"

lemma setRules_mono [partial_function_mono]:
  assumes "\<And>ts s. mono_option (\<lambda>f. R f ts s)"
  shows "mono_option (\<lambda>f. setRules e opts (R f) r s collapsed)"
  unfolding setRules_def Let_def
  by (cases collapsed) (auto intro!: partial_function_mono assms simp: split_beta)

text \<open>
  One call \<^verbatim>\<open>optimize(ast, options, processed)\<close> on the node \<open>r\<close>. The recursive calls
  are \<open>rec\<close>, which optimizes a list of nodes one after the other, as
  \<^verbatim>\<open>params.map(_ => optimize(_, options, processed))\<close> does; with a node comes the place
  where the \<open>Interface\<close> rule stores the result at once
  (\<^verbatim>\<open>Object.assign(_, {ast: optimize(_.ast, ...)})\<close>): the interface and the index of the
  member. The last case is the one of \<open>Union\<close> and \<open>Intersection\<close>.
\<close>

definition optimizeNode ::
  "env \<Rightarrow> options
     \<Rightarrow> ((ref \<times> (ref \<times> nat) option) list \<Rightarrow> state \<Rightarrow> (ref list \<times> state) option)
     \<Rightarrow> ref \<Rightarrow> state \<Rightarrow> (ref \<times> state) option" where
  "optimizeNode e opts rec r s =
     (if r \<in> processed s then Some (r, s)
      else
        (let s0 = s\<lparr>processed := insert r (processed s)\<rparr>; n = heap s r in
         case payload n of
           TLiteral v \<Rightarrow> Some (returnNode (stringWithComment (comment n)) s0)
         | TArray el \<Rightarrow>
             do {
               (els, s1) \<leftarrow> rec [(el, None)] s0;
               Some (r, arrayRule r (hd els) s1)
             }
         | TTuple ps minItems maxItems spreadParam \<Rightarrow>
             do {
               (ps', s1) \<leftarrow> rec (map (\<lambda>p. (p, None)) ps) s0;
               Some (r, assign r (withParams ps') s1)
             }
         | TInterface ms sups \<Rightarrow>
             do {
               (as, s1) \<leftarrow> rec (map (\<lambda>i. (p_ast (ms ! i), Some (r, i))) [0..<length ms]) s0;
               (rs, s4) \<leftarrow> rec [(r, None)] (interfaceRule r s1);
               Some (hd rs, s4)
             }
         | TEnum ps \<Rightarrow> Some (r, s0)
         | TAny \<Rightarrow> Some (r, s0)
         | TUnknown \<Rightarrow> Some (r, s0)
         | TNever \<Rightarrow> Some (r, s0)
         | TNull \<Rightarrow> Some (r, s0)
         | TBoolean \<Rightarrow> Some (r, s0)
         | TNumber \<Rightarrow> Some (r, s0)
         | TString \<Rightarrow> Some (r, s0)
         | TObject \<Rightarrow> Some (r, s0)
         | TReference v \<Rightarrow> Some (r, s0)
         | TCustomType v \<Rightarrow> Some (r, s0)
         | _ \<Rightarrow>
             do {
               (ps', s1) \<leftarrow> rec (map (\<lambda>p. (p, None)) (setParams n)) s0;
               let s3 = nullRule r ps' s1;
               setRules e opts rec r s3 (collapse (heap s3) (heap s3 r) (setParams (heap s3 r)))
             }))"

lemma optimizeNode_mono [partial_function_mono]:
  assumes "\<And>ts s. mono_option (\<lambda>f. R f ts s)"
  shows "mono_option (\<lambda>f. optimizeNode e opts (R f) r s)"
  unfolding optimizeNode_def Let_def
  by (cases "payload (heap s r)")
     (auto intro!: partial_function_mono assms simp: split_beta)

text \<open>
  \<^verbatim>\<open>optimize\<close> on a list of nodes, each with the place where its result is stored. A call
  that never returns is \<open>None\<close>.
\<close>

partial_function (option) optimizes ::
  "env \<Rightarrow> options \<Rightarrow> (ref \<times> (ref \<times> nat) option) list \<Rightarrow> state \<Rightarrow> (ref list \<times> state) option"
  where
  "optimizes e opts ts s =
     (case ts of
        [] \<Rightarrow> Some ([], s)
      | (r, dest) # rest \<Rightarrow>
          do {
            (r', s1) \<leftarrow> optimizeNode e opts (optimizes e opts) r s;
            let s2 = (case dest of None \<Rightarrow> s1 | Some (owner, i) \<Rightarrow> assignParamAst owner i r' s1);
            (rs, s3) \<leftarrow> optimizes e opts rest s2;
            Some (r' # rs, s3)
          })"

declare optimizes.simps [code]

definition optimize :: "env \<Rightarrow> options \<Rightarrow> ref \<Rightarrow> state \<Rightarrow> (ref \<times> state) option" where
  "optimize e opts r s = optimizeNode e opts (optimizes e opts) r s"

subsection \<open>The three walks and \<^verbatim>\<open>generate\<close>\<close>

definition nameOf :: "'r node \<Rightarrow> string" where
  "nameOf n = (case standaloneName n of Some v \<Rightarrow> v | None \<Rightarrow> [])"

definition getSuperTypesAndParams :: "'r node \<Rightarrow> 'r list" where
  "getSuperTypesAndParams n =
     (case payload n of TInterface ms sups \<Rightarrow> map p_ast ms @ sups | _ \<Rightarrow> [])"

definition enumParams :: "'r node \<Rightarrow> 'r enum_param list" where
  "enumParams n = (case payload n of TEnum ps \<Rightarrow> ps | _ \<Rightarrow> [])"

definition superTypes :: "'r node \<Rightarrow> 'r list" where
  "superTypes n = (case payload n of TInterface ms sups \<Rightarrow> sups | _ \<Rightarrow> [])"

definition spreadList :: "'r node \<Rightarrow> 'r list" where
  "spreadList n =
     (case payload n of TTuple ps minItems maxItems (Some sp) \<Rightarrow> [sp] | _ \<Rightarrow> [])"

definition tupleOrSetParams :: "'r node \<Rightarrow> 'r list" where
  "tupleOrSetParams n =
     (case payload n of TTuple ps minItems maxItems sp \<Rightarrow> ps | TUnion ps \<Rightarrow> ps
      | TIntersection ps \<Rightarrow> ps | _ \<Rightarrow> [])"

definition generateStandaloneEnum ::
  "env \<Rightarrow> options \<Rightarrow> (ref \<Rightarrow> ref node) \<Rightarrow> (ref \<rightharpoonup> string) \<Rightarrow> ref node
     \<Rightarrow> (string \<times> (ref \<rightharpoonup> string)) option" where
  "generateStandaloneEnum e opts h c n =
     do {
       (ts, c') \<leftarrow> generateTypes e opts h c (map e_ast (enumParams n));
       Some (commentOf e n @ ''export '' @ (if enableConstEnums opts then ''const '' else [])
               @ ''enum '' @ toSafeString e (nameOf n) @ '' {'' @ nl
               @ join ('','' @ nl)
                   (map (\<lambda>(p, t). e_keyName p @ '' = '' @ t) (zip (enumParams n) ts))
               @ nl @ ''}'', c')
     }"

definition generateStandaloneInterface ::
  "env \<Rightarrow> options \<Rightarrow> (ref \<Rightarrow> ref node) \<Rightarrow> (ref \<rightharpoonup> string) \<Rightarrow> ref node
     \<Rightarrow> (string \<times> (ref \<rightharpoonup> string)) option" where
  "generateStandaloneInterface e opts h c n =
     do {
       (ts, c') \<leftarrow> generateTypes e opts h c (map p_ast (reachableParams (interfaceParams n)));
       Some (commentOf e n @ ''export class '' @ toSafeString e (nameOf n)
               @ '' extends Annotated ''
               @ (if length (superTypes n) > 0
                  then ''extends ''
                    @ join '', '' (map (\<lambda>superType. toSafeString e (nameOf (h superType)))
                                     (superTypes n)) @ '' ''
                  else [])
               @ generateInterface e h
                   (textOf (zip (map p_ast (reachableParams (interfaceParams n))) ts))
                   (interfaceParams n), c')
     }"

definition startsWith :: "string \<Rightarrow> char \<Rightarrow> bool" where
  "startsWith s c = (s \<noteq> [] \<and> hd s = c)"

definition generateStandaloneType ::
  "env \<Rightarrow> options \<Rightarrow> (ref \<Rightarrow> ref node) \<Rightarrow> (ref \<rightharpoonup> string) \<Rightarrow> ref node
     \<Rightarrow> (string \<times> (ref \<rightharpoonup> string)) option" where
  "generateStandaloneType e opts h c n =
     do {
       (generatedType, c') \<leftarrow> generateTypeFresh e opts h c (withStandaloneName None n);
       let suffix =
         (if startsWith generatedType (CHR ''{'')
          then ''export class '' @ toSafeString e (nameOf n) @ '' extends Annotated ''
                 @ generatedType
          else ''export type '' @ toSafeString e (nameOf n) @ '' = '' @ generatedType);
       Some ((if hasComment e (comment n) (deprecated n)
              then generateComment (comment n) False @ nl else []) @ suffix, c')
     }"

definition arrayParam :: "'r node \<Rightarrow> 'r list" where
  "arrayParam n = (case payload n of TArray el \<Rightarrow> [el] | _ \<Rightarrow> [])"

text \<open>
  Each walk is one call on the node \<open>r\<close>, with the set \<^verbatim>\<open>processed\<close> of the walk and the
  memo table as state; \<open>rec\<close> is the walk on a list of nodes, one after the other, and
  gives the text of every node.
\<close>

definition declareEnumsNode ::
  "env \<Rightarrow> options \<Rightarrow> (ref \<Rightarrow> ref node)
     \<Rightarrow> (ref list \<Rightarrow> ref set \<times> (ref \<rightharpoonup> string)
          \<Rightarrow> (string list \<times> ref set \<times> (ref \<rightharpoonup> string)) option)
     \<Rightarrow> ref \<Rightarrow> ref set \<times> (ref \<rightharpoonup> string) \<Rightarrow> (string \<times> ref set \<times> (ref \<rightharpoonup> string)) option"
  where
  "declareEnumsNode e opts h rec r st =
     (if r \<in> fst st then Some ([], st)
      else
        (let st0 = (insert r (fst st), snd st); n = h r in
         if atype n = ENUM then
           do {
             (t, c) \<leftarrow> generateStandaloneEnum e opts h (snd st0) n;
             Some (t @ nl, (fst st0, c))
           }
         else if atype n = ARRAY then
           do { (ts, st1) \<leftarrow> rec (arrayParam n) st0; Some (concat ts, st1) }
         else if atype n = UNION \<or> atype n = INTERSECTION then
           do { (ts, st1) \<leftarrow> rec (tupleOrSetParams n) st0; Some (concat ts, st1) }
         else if atype n = TUPLE then
           do {
             (ts, st1) \<leftarrow> rec (tupleOrSetParams n) st0;
             (us, st2) \<leftarrow> rec (spreadList n) st1;
             Some (concat ts @ concat us, st2)
           }
         else if atype n = INTERFACE then
           do { (ts, st1) \<leftarrow> rec (getSuperTypesAndParams n) st0; Some (concat ts, st1) }
         else Some ([], st0)))"

lemma declareEnumsNode_mono [partial_function_mono]:
  assumes "\<And>rs st. mono_option (\<lambda>f. R f rs st)"
  shows "mono_option (\<lambda>f. declareEnumsNode e opts h (R f) r st)"
  unfolding declareEnumsNode_def Let_def
  by (auto intro!: partial_function_mono assms simp: split_beta)

partial_function (option) declareEnumsList ::
  "env \<Rightarrow> options \<Rightarrow> (ref \<Rightarrow> ref node) \<Rightarrow> ref list \<Rightarrow> ref set \<times> (ref \<rightharpoonup> string)
     \<Rightarrow> (string list \<times> ref set \<times> (ref \<rightharpoonup> string)) option" where
  "declareEnumsList e opts h rs st =
     (case rs of
        [] \<Rightarrow> Some ([], st)
      | r # rest \<Rightarrow>
          do {
            (t, st1) \<leftarrow> declareEnumsNode e opts h (declareEnumsList e opts h) r st;
            (ts, st2) \<leftarrow> declareEnumsList e opts h rest st1;
            Some (t # ts, st2)
          })"

declare declareEnumsList.simps [code]

definition declareNamedInterfacesNode ::
  "env \<Rightarrow> options \<Rightarrow> (ref \<Rightarrow> ref node) \<Rightarrow> string option
     \<Rightarrow> (ref list \<Rightarrow> ref set \<times> (ref \<rightharpoonup> string)
          \<Rightarrow> (string list \<times> ref set \<times> (ref \<rightharpoonup> string)) option)
     \<Rightarrow> ref \<Rightarrow> ref set \<times> (ref \<rightharpoonup> string) \<Rightarrow> (string \<times> ref set \<times> (ref \<rightharpoonup> string)) option"
  where
  "declareNamedInterfacesNode e opts h rootASTName rec r st =
     (if r \<in> fst st then Some ([], st)
      else
        (let st0 = (insert r (fst st), snd st); n = h r in
         if atype n = ARRAY then
           do { (ts, st1) \<leftarrow> rec (arrayParam n) st0; Some (concat ts, st1) }
         else if atype n = INTERFACE then
           do {
             (own, c) \<leftarrow>
               (if hasStandaloneName n
                   \<and> (standaloneName n = rootASTName \<or> declareExternallyReferenced opts)
                then generateStandaloneInterface e opts h (snd st0) n
                else Some ([], snd st0));
             (ts, st1) \<leftarrow> rec (getSuperTypesAndParams n) (fst st0, c);
             Some (join nl (filterBoolean [own, join nl (filterBoolean ts)]), st1)
           }
         else if atype n = INTERSECTION \<or> atype n = TUPLE \<or> atype n = UNION then
           do {
             (ts, st1) \<leftarrow> rec (tupleOrSetParams n) st0;
             (us, st2) \<leftarrow> rec (spreadList n) st1;
             Some (join nl (filterBoolean ts) @ concat us, st2)
           }
         else Some ([], st0)))"

lemma declareNamedInterfacesNode_mono [partial_function_mono]:
  assumes "\<And>rs st. mono_option (\<lambda>f. R f rs st)"
  shows "mono_option (\<lambda>f. declareNamedInterfacesNode e opts h rootASTName (R f) r st)"
  unfolding declareNamedInterfacesNode_def Let_def
  by (auto intro!: partial_function_mono assms simp: split_beta)

partial_function (option) declareNamedInterfacesList ::
  "env \<Rightarrow> options \<Rightarrow> (ref \<Rightarrow> ref node) \<Rightarrow> string option \<Rightarrow> ref list
     \<Rightarrow> ref set \<times> (ref \<rightharpoonup> string) \<Rightarrow> (string list \<times> ref set \<times> (ref \<rightharpoonup> string)) option"
  where
  "declareNamedInterfacesList e opts h rootASTName rs st =
     (case rs of
        [] \<Rightarrow> Some ([], st)
      | r # rest \<Rightarrow>
          do {
            (t, st1) \<leftarrow> declareNamedInterfacesNode e opts h rootASTName
                           (declareNamedInterfacesList e opts h rootASTName) r st;
            (ts, st2) \<leftarrow> declareNamedInterfacesList e opts h rootASTName rest st1;
            Some (t # ts, st2)
          })"

declare declareNamedInterfacesList.simps [code]

text \<open>\<^verbatim>\<open>hasStandaloneName(ast) ? generateStandaloneType(ast, options) : undefined\<close>.\<close>

definition standaloneTypeOf ::
  "env \<Rightarrow> options \<Rightarrow> (ref \<Rightarrow> ref node) \<Rightarrow> (ref \<rightharpoonup> string) \<Rightarrow> ref node
     \<Rightarrow> (string \<times> (ref \<rightharpoonup> string)) option" where
  "standaloneTypeOf e opts h c n =
     (if hasStandaloneName n then generateStandaloneType e opts h c n else Some ([], c))"

definition declareNamedTypesNode ::
  "env \<Rightarrow> options \<Rightarrow> (ref \<Rightarrow> ref node) \<Rightarrow> string option
     \<Rightarrow> (ref list \<Rightarrow> ref set \<times> (ref \<rightharpoonup> string)
          \<Rightarrow> (string list \<times> ref set \<times> (ref \<rightharpoonup> string)) option)
     \<Rightarrow> ref \<Rightarrow> ref set \<times> (ref \<rightharpoonup> string) \<Rightarrow> (string \<times> ref set \<times> (ref \<rightharpoonup> string)) option"
  where
  "declareNamedTypesNode e opts h rootASTName rec r st =
     (if r \<in> fst st then Some ([], st)
      else
        (let st0 = (insert r (fst st), snd st); n = h r in
         if atype n = ARRAY then
           do {
             (ts, st1) \<leftarrow> rec (arrayParam n) st0;
             (own, c) \<leftarrow> standaloneTypeOf e opts h (snd st1) n;
             Some (join nl (filterBoolean [concat ts, own]), (fst st1, c))
           }
         else if atype n = ENUM then Some ([], st0)
         else if atype n = INTERFACE then
           do {
             (ts, st1) \<leftarrow> rec
               (filter (\<lambda>a. standaloneName (h a) = rootASTName \<or> declareExternallyReferenced opts)
                  (getSuperTypesAndParams n)) st0;
             Some (join nl (filterBoolean ts), st1)
           }
         else if atype n = INTERSECTION \<or> atype n = TUPLE \<or> atype n = UNION then
           do {
             (own, c) \<leftarrow> standaloneTypeOf e opts h (snd st0) n;
             (ts, st1) \<leftarrow> rec (tupleOrSetParams n) (fst st0, c);
             (us, st2) \<leftarrow> rec (spreadList n) st1;
             Some (join nl (filterBoolean [own, join nl (filterBoolean ts), concat us]), st2)
           }
         else
           do {
             (own, c) \<leftarrow> standaloneTypeOf e opts h (snd st0) n;
             Some (own, (fst st0, c))
           }))"

lemma declareNamedTypesNode_mono [partial_function_mono]:
  assumes "\<And>rs st. mono_option (\<lambda>f. R f rs st)"
  shows "mono_option (\<lambda>f. declareNamedTypesNode e opts h rootASTName (R f) r st)"
  unfolding declareNamedTypesNode_def Let_def
  by (auto intro!: partial_function_mono assms simp: split_beta)

partial_function (option) declareNamedTypesList ::
  "env \<Rightarrow> options \<Rightarrow> (ref \<Rightarrow> ref node) \<Rightarrow> string option \<Rightarrow> ref list
     \<Rightarrow> ref set \<times> (ref \<rightharpoonup> string) \<Rightarrow> (string list \<times> ref set \<times> (ref \<rightharpoonup> string)) option"
  where
  "declareNamedTypesList e opts h rootASTName rs st =
     (case rs of
        [] \<Rightarrow> Some ([], st)
      | r # rest \<Rightarrow>
          do {
            (t, st1) \<leftarrow> declareNamedTypesNode e opts h rootASTName
                           (declareNamedTypesList e opts h rootASTName) r st;
            (ts, st2) \<leftarrow> declareNamedTypesList e opts h rootASTName rest st1;
            Some (t # ts, st2)
          })"

declare declareNamedTypesList.simps [code]

text \<open>The runtime support that \<^verbatim>\<open>generate\<close> writes first: the template literal
  \<^verbatim>\<open>prefix\<close>, line by line.\<close>

definition prefixLines :: "string list" where
  "prefixLines = [
    ''import { DocumentUri } from 'vscode-languageserver';'',
    ''  import { Node, Pair, isMap, isScalar, isSeq } from 'yaml';'',
    ''  '',
    ''  export class Annotated {'',
    ''    node: Node;'',
    ''    uri: DocumentUri;'',
    ''  '',
    ''    constructor(node: Node, uri: DocumentUri) {'',
    ''      this.node = node;'',
    ''      this.uri = uri;'',
    ''    }'',
    ''  }'',
    ''  '',
    ''  export class AnnotatedString extends Annotated {'',
    ''    get value() {'',
    ''      if (isScalar(this.node) && typeof this.node.value === 'string') {'',
    ''        return this.node.value;'',
    ''      }'',
    ''    }'',
    ''  }'',
    ''  '',
    ''  export class AnnotatedBoolean extends Annotated {'',
    ''    get value() {'',
    ''      if (isScalar(this.node) && typeof this.node.value === 'boolean') {'',
    ''        return this.node.value;'',
    ''      }'',
    ''    }'',
    ''  }'',
    ''  '',
    ''  // Represent the SecretValue schema of OpenDDS'',
    ''  // https://github.com/hasura/open-data-domain-specification/blob/main/jsonschema/metadata_object.jsonschema#L643'',
    ''  export class AnnotatedSecretValue extends Annotated {'',
    ''    get value() {'',
    ''      return getMapEntry(this.node, 'value', this.uri, AnnotatedString);'',
    ''    }'',
    ''    get stringValueFromSecret() {'',
    ''      return getMapEntry(this.node, 'stringValueFromSecret', this.uri, AnnotatedString);'',
    ''    }'',
    ''  }'',
    ''  '',
    ''  export class Any extends Annotated {'',
    ''    get(key: string) {'',
    ''      return getMapEntry(this.node, key, this.uri, Any);'',
    ''    }'',
    ''  }'',
    ''  '',
    ''  export class Map<V extends Annotated> extends Annotated {'',
    ''    private ctor: AnnotatedConstructor<V>;'',
    ''    constructor(node: Node, uri: DocumentUri, ctor: AnnotatedConstructor<V>) {'',
    ''      super(node, uri);'',
    ''      this.ctor = ctor;'',
    ''    }'',
    ''    keys(): AnnotatedString[] {'',
    ''      if (isMap(this.node)) {'',
    ''        return this.node.items.map((pair) => {'',
    ''          return new AnnotatedString(pair.key as Node, this.uri);'',
    ''        });'',
    ''      }'',
    ''      return [];'',
    ''    }'',
    ''    values(): V[] {'',
    ''      if (isMap(this.node)) {'',
    ''        return this.node.items.map((pair) => {'',
    ''          return new this.ctor(pair.value as Node, this.uri) as V;'',
    ''        });'',
    ''      }'',
    ''      return [];'',
    ''    }'',
    ''    entries(): [AnnotatedString, V][] {'',
    ''      if (isMap(this.node)) {'',
    ''        return this.node.items.map((pair) => {'',
    ''          return [new AnnotatedString(pair.key as Node, this.uri), new this.ctor(pair.value as Node, this.uri) as V];'',
    ''        });'',
    ''      }'',
    ''      return [];'',
    ''    }'',
    ''    get(key: string): V | undefined {'',
    ''      if (isMap(this.node)) {'',
    ''        const node = this.node.items.find((pair) => ((pair.key as AnnotatedString).value as string) === key)?.value;'',
    ''        return node ? (new this.ctor(node as Node, this.uri) as V) : undefined;'',
    ''      }'',
    ''      return undefined;'',
    ''    }'',
    ''  }'',
    ''  '',
    ''  export class MapEntry<T extends Annotated> {'',
    ''    keyNode: Node;'',
    ''    value: T;'',
    ''    uri: DocumentUri;'',
    ''  '',
    ''    get key() {'',
    ''      return new AnnotatedString(this.keyNode, this.uri).value;'',
    ''    }'',
    ''  '',
    ''    constructor(keyNode: Node, value: T, uri: DocumentUri) {'',
    ''      this.keyNode = keyNode;'',
    ''      this.value = value;'',
    ''      this.uri = uri;'',
    ''    }'',
    ''  }'',
    ''  '',
    ''  export class Sequence<T extends Annotated> extends Annotated {'',
    ''    private ctor: AnnotatedConstructor<T>;'',
    ''    constructor(node: Node, uri: DocumentUri, ctor: AnnotatedConstructor<T>) {'',
    ''      super(node, uri);'',
    ''      this.ctor = ctor;'',
    ''    }'',
    ''    items() {'',
    ''      if (isSeq(this.node)) {'',
    ''        return this.node.items.map((item) => new this.ctor(item as Node, this.uri));'',
    ''      }'',
    ''    }'',
    ''  '',
    ''    // eslint-disable-next-line @typescript-eslint/class-methods-use-this'',
    ''    get() {'',
    ''      return undefined;'',
    ''    }'',
    ''  }'',
    ''  '',
    ''  interface AnnotatedConstructor<T extends Annotated> {'',
    ''    new (node: Node, uri: DocumentUri): T;'',
    ''  }'',
    ''  '',
    ''  function getMapEntry<T extends Annotated>(node: Node, key: string, uri: DocumentUri, ctor: AnnotatedConstructor<T>) {'',
    ''    return getMapEntryWith(node, key, uri, (pair) => new ctor(pair.value as Node, uri));'',
    ''  }'',
    ''  '',
    ''  function getMapEntrySequence<T extends Annotated>(node: Node, key: string, uri: DocumentUri, ctor: AnnotatedConstructor<T>) {'',
    ''    return getMapEntryWith<Sequence<T>>(node, key, uri, (pair) => new Sequence<T>(pair.value as Node, uri, ctor));'',
    ''  }'',
    ''  '',
    ''  function getMapEntryMap<T extends Annotated>(node: Node, key: string, uri: DocumentUri, ctor: AnnotatedConstructor<T>) {'',
    ''    return getMapEntryWith<Map<T>>(node, key, uri, (pair) => new Map<T>(pair.value as Node, uri, ctor));'',
    ''  }'',
    ''  '',
    ''  function getMapEntryWith<T extends Annotated>('',
    ''    node: Node,'',
    ''    key: string,'',
    ''    uri: DocumentUri,'',
    ''    fn: (pair: Pair<unknown, unknown>) => T'',
    ''  ) {'',
    ''    if (isMap(node)) {'',
    ''      for (const pair of node.items) {'',
    ''        if (isScalar(pair.key) && pair.key.value == key) {'',
    ''          return new MapEntry<T>(pair.key, fn(pair), uri);'',
    ''        }'',
    ''      }'',
    ''    }'',
    ''  }'']"

definition prefix :: string where
  "prefix = join nl prefixLines"

definition declareNamedTypes ::
  "env \<Rightarrow> options \<Rightarrow> (ref \<Rightarrow> ref node) \<Rightarrow> string option \<Rightarrow> ref \<Rightarrow> (ref \<rightharpoonup> string)
     \<Rightarrow> (string \<times> (ref \<rightharpoonup> string)) option" where
  "declareNamedTypes e opts h rootASTName r c =
     do {
       (t, st) \<leftarrow> declareNamedTypesNode e opts h rootASTName
                    (declareNamedTypesList e opts h rootASTName) r ({}, c);
       Some (t, snd st)
     }"

definition declareNamedInterfaces ::
  "env \<Rightarrow> options \<Rightarrow> (ref \<Rightarrow> ref node) \<Rightarrow> string option \<Rightarrow> ref \<Rightarrow> (ref \<rightharpoonup> string)
     \<Rightarrow> (string \<times> (ref \<rightharpoonup> string)) option" where
  "declareNamedInterfaces e opts h rootASTName r c =
     do {
       (t, st) \<leftarrow> declareNamedInterfacesNode e opts h rootASTName
                    (declareNamedInterfacesList e opts h rootASTName) r ({}, c);
       Some (t, snd st)
     }"

definition declareEnums ::
  "env \<Rightarrow> options \<Rightarrow> (ref \<Rightarrow> ref node) \<Rightarrow> ref \<Rightarrow> (ref \<rightharpoonup> string)
     \<Rightarrow> (string \<times> (ref \<rightharpoonup> string)) option" where
  "declareEnums e opts h r c =
     do {
       (t, st) \<leftarrow> declareEnumsNode e opts h (declareEnumsList e opts h) r ({}, c);
       Some (t, snd st)
     }"

text \<open>
  \<^verbatim>\<open>generate\<close>: every walk starts with its own empty set \<^verbatim>\<open>processed\<close>; the memo table is
  the one of the module. The result is the text and the table left behind.
\<close>

definition generate ::
  "env \<Rightarrow> options \<Rightarrow> (ref \<Rightarrow> ref node) \<Rightarrow> ref \<Rightarrow> (ref \<rightharpoonup> string)
     \<Rightarrow> (string \<times> (ref \<rightharpoonup> string)) option" where
  "generate e opts h ast c =
     do {
       (namedTypes, c1) \<leftarrow> declareNamedTypes e opts h (standaloneName (h ast)) ast c;
       (namedInterfaces, c2) \<leftarrow> declareNamedInterfaces e opts h (standaloneName (h ast)) ast c1;
       (enums, c3) \<leftarrow> declareEnums e opts h ast c2;
       let types = join (nl @ nl)
                     (filterBoolean [bannerComment opts, namedTypes, namedInterfaces, enums])
                   @ nl;
       Some (prefix @ types, c3)
     }"

section \<open>Concrete inputs\<close>

text \<open>An environment and options to run the definitions on: \<^verbatim>\<open>toSafeString\<close> leaves an
  identifier as it is, \<^verbatim>\<open>JSON.stringify\<close> quotes a string.\<close>

definition exampleEnv :: env where
  "exampleEnv = \<lparr>toSafeString = (\<lambda>s. s),
     stringify = (\<lambda>j. case j of JString s \<Rightarrow> [CHR 0x22] @ s @ [CHR 0x22] | JNumber i \<Rightarrow> ''0''
        | JBool b \<Rightarrow> (if b then ''true'' else ''false'') | JNull \<Rightarrow> ''null''),
     hasComment = (\<lambda>c d. truthy c \<or> d)\<rparr>"

definition exampleOptions :: options where
  "exampleOptions = \<lparr>declareExternallyReferenced = True, unknownAny = True,
     strictIndexSignatures = False, enableConstEnums = True, bannerComment = ''/* banner */''\<rparr>"

text \<open>A node without name, comment and key name.\<close>

definition leaf :: "'r payload \<Rightarrow> 'r node" where
  "leaf p = Node p None None False None"

text \<open>The union of the tuple shapes of the lengths \<open>m\<close> to \<open>length texts\<close>.\<close>

definition tupleShapes :: "string list \<Rightarrow> nat \<Rightarrow> string" where
  "tupleShapes texts m =
     join ''|'' (map (\<lambda>k. paramsToString (take k texts)) [m..<Suc (length texts)])"

text \<open>The parameters of a set node after its parameters are optimized and rule (a) has
  dropped the \<open>Null\<close> ones.\<close>

definition nonNullParams :: "env \<Rightarrow> options \<Rightarrow> ast list \<Rightarrow> ast list" where
  "nonNullParams e opts ps = filter (\<lambda>p. atype (unAst p) \<noteq> NULL) (map (optimizeT e opts) ps)"

text \<open>All members of a list of interfaces, in order.\<close>

definition allParams :: "ast list \<Rightarrow> ast interface_param list" where
  "allParams qs = concat (map (\<lambda>q. interfaceParams (unAst q)) qs)"

text \<open>The text of a node generated without its name, as rule (e) compares it.\<close>

definition textWithoutName :: "env \<Rightarrow> options \<Rightarrow> ast \<Rightarrow> string" where
  "textWithoutName e opts p = generateTypeT e opts (Ast (omitStandaloneName (unAst p)))"

definition isNamed :: "ast \<Rightarrow> bool" where
  "isNamed p = (standaloneName (unAst p) \<noteq> None)"

text \<open>\<open>Interface{a: String}\<close>, \<open>Interface{b: Number}\<close> and the two merged.\<close>

definition exA :: ast where
  "exA = Ast (leaf (TInterface [TInterfaceParam ''a'' (Ast T_STRING) True False False] []))"

definition exB :: ast where
  "exB = Ast (leaf (TInterface [TInterfaceParam ''b'' (Ast (leaf TNumber)) True False False] []))"

definition exAB :: ast where
  "exAB = Ast (leaf (TInterface [TInterfaceParam ''a'' (Ast T_STRING) True False False,
            TInterfaceParam ''b'' (Ast (leaf TNumber)) True False False] []))"

text \<open>\<open>Number\<close> named \<open>A\<close>, and \<open>Number\<close>.\<close>

definition exNamedNumber :: ast where
  "exNamedNumber = Ast (Node TNumber (Some ''A'') None False None)"

definition exNumber :: ast where
  "exNumber = Ast (leaf TNumber)"

text \<open>A store with the three constants and the nodes \<open>ns\<close> at the addresses from 3 on;
  nothing is visited and the memo table is empty.\<close>

definition store :: "ref node list \<Rightarrow> state" where
  "store ns =
     \<lparr>heap = (\<lambda>r. if r < 3 + length ns then ([T_ANY, T_UNKNOWN, T_STRING] @ ns) ! r else T_ANY),
      free = 3 + length ns, processed = {}, memo = Map.empty\<rparr>"

text \<open>\<open>Interface{a: Literal x}\<close> at address 3.\<close>

definition exInterfaceStore :: state where
  "exInterfaceStore =
     store [leaf (TInterface [TInterfaceParam ''a'' 4 True False False] []),
            leaf (TLiteral (JString ''x''))]"

text \<open>A \<open>String\<close> that is the value of an index signature, at address 3, and the options
  with \<^verbatim>\<open>strictIndexSignatures\<close>.\<close>

definition exKeyStore :: state where
  "exKeyStore = store [Node TString None None False (Some indexSignature)]"

definition strictOptions :: options where
  "strictOptions = exampleOptions\<lparr>strictIndexSignatures := True\<rparr>"

text \<open>A \<open>String\<close> named \<open>Root\<close> at address 3.\<close>

definition exRootStore :: state where
  "exRootStore = store [Node TString (Some ''Root'') None False None]"

section \<open>Rendering tuples\<close>

lemma tupleLoop_shapes:
  assumes "0 \<le> i" "i \<le> int (length pl)"
  shows "tupleLoop pl None i (take (nat i) pl) acc
    = acc @ map (\<lambda>k. paramsToString (take k pl)) [Suc (nat i)..<Suc (length pl)]"
  using assms
proof (induction "nat (int (length pl) - i)" arbitrary: i acc)
  case 0
  then have "i = int (length pl)" by simp
  then show ?case by (simp add: tupleLoop.simps)
next
  case (Suc d)
  then have lt: "i < int (length pl)" by linarith
  have at: "at pl i = pl ! nat i" using Suc.prems lt by (simp add: at_def)
  have tk: "take (nat i) pl @ [pl ! nat i] = take (nat (i + 1)) pl"
    using Suc.prems lt by (simp add: nat_add_distrib take_Suc_conv_app_nth)
  have d0: "True" ..
  have d: "d = nat (int (length pl) - (i + 1))" using Suc.hyps(2) by linarith
  have ni: "nat i < length pl" using Suc.prems lt by linarith
  have n1: "nat (i + 1) = Suc (nat i)" using Suc.prems by linarith
  have up: "[Suc (nat i)..<Suc (length pl)] = Suc (nat i) # [Suc (nat (i + 1))..<Suc (length pl)]"
    unfolding n1 using ni by (intro upt_conv_Cons) simp
  have "tupleLoop pl None i (take (nat i) pl) acc
      = tupleLoop pl None (i + 1) (take (nat (i + 1)) pl) (acc @ [paramsToString (take (nat (i + 1)) pl)])"
    using lt by (subst tupleLoop.simps) (simp add: at tk addSpreadParam_def Let_def)
  also have "\<dots> = (acc @ [paramsToString (take (nat (i + 1)) pl)])
      @ map (\<lambda>k. paramsToString (take k pl)) [Suc (nat (i + 1))..<Suc (length pl)]"
    using Suc.prems lt by (intro Suc.hyps(1)[OF d]) auto
  finally show ?case unfolding up n1 by simp
qed


text \<open>
  C3 (corrected). A tuple without spread parameter and without name, with
  \<open>0 \<le> minItems < maxItems\<close> and at most \<open>maxItems\<close> parameters, is rendered as the union
  of the fixed-length shapes of \<^emph>\<open>every\<close> length from \<open>minItems\<close> to \<open>maxItems\<close>, the
  missing parameters filled with \<open>unknown\<close> (or \<open>any\<close>). For \<open>minItems = 1\<close>,
  \<open>maxItems = 3\<close> and the one parameter \<open>String\<close> these are three shapes,
  \<^verbatim>\<open>[string]|[string, unknown]|[string, unknown, unknown]\<close>, not two.
\<close>

theorem tuple_union_of_shapes:
  assumes "0 \<le> minItems" "minItems < maxItems" "int (length ps) \<le> maxItems"
  shows "generateTypeT e opts (Ast (leaf (TTuple ps minItems maxItems None)))
     = tupleShapes (map (generateTypeT e opts) ps
          @ replicate (nat (maxItems - int (length ps))) (anyText opts)) (nat minItems)"
proof -
  let ?pl = "map (generateTypeT e opts) ps @ replicate (nat (maxItems - int (length ps))) (anyText opts)"
  have len: "int (length ?pl) = maxItems" using assms by simp
  have pl: "map (generateTypeT e opts) ps @
        (if maxItems > int (length ps) \<and> (None::ast option) = None
         then replicate (nat (maxItems - int (length ps))) (anyText opts) else []) = ?pl"
    using assms by auto
  have loop: "tupleLoop ?pl None minItems (take (nat minItems) ?pl) [paramsToString (take (nat minItems) ?pl)]
      = [paramsToString (take (nat minItems) ?pl)]
        @ map (\<lambda>k. paramsToString (take k ?pl)) [Suc (nat minItems)..<Suc (length ?pl)]"
    using assms len by (intro tupleLoop_shapes) auto
  have up: "[nat minItems..<Suc (length ?pl)] = nat minItems # [Suc (nat minItems)..<Suc (length ?pl)]"
    using assms len by (intro upt_conv_Cons) linarith
  have "generateTypeT e opts (Ast (leaf (TTuple ps minItems maxItems None)))
      = generateTuple opts (generateTypeT e opts) ps minItems maxItems None"
    by (simp add: generateTypeT_unfold generateTypeUnmemoized_def generateRawType_def leaf_def
        hasStandaloneName_def truthy_def)
  also have "\<dots> = join ''|'' (tupleLoop ?pl None minItems (take (nat minItems) ?pl)
        [paramsToString (take (nat minItems) ?pl)])"
  proof -
    have gt: "int (length ?pl) > minItems" using assms len by simp
    have mx: "(if maxItems = 0 then - 1 else maxItems) = maxItems" using assms by simp
    have sl: "slice0 ?pl minItems = take (nat minItems) ?pl" using assms by (simp add: slice0_def)
    show ?thesis
      unfolding generateTuple_def Let_def mx pl sl using gt assms
      by (simp only: if_True option.case if_False split: if_splits) auto
  qed
  also have "\<dots> = tupleShapes ?pl (nat minItems)"
    unfolding loop tupleShapes_def up by simp
  finally show ?thesis .
qed


theorem tuple_union_of_shapes_witness:
  "(0::int) \<le> 1 \<and> (1::int) < 3 \<and> int (length [Ast T_STRING]) \<le> 3
   \<and> generateTypeT exampleEnv exampleOptions (Ast (leaf (TTuple [Ast T_STRING] 1 3 None)))
       = ''[string]|[string, unknown]|[string, unknown, unknown]''"
  using tuple_union_of_shapes[of 1 3 "[Ast T_STRING]" exampleEnv exampleOptions]
  by (simp add: tupleShapes_def paramsToString_def anyText_def exampleOptions_def
      generateTypeT_unfold generateTypeUnmemoized_def generateRawType_def T_STRING_def
      hasStandaloneName_def truthy_def indexSignature_def numeral_3_eq_3)

theorem tuple_two_shapes_counterexample:
  "generateTypeT exampleEnv exampleOptions (Ast (leaf (TTuple [Ast T_STRING] 1 3 None)))
   \<noteq> ''[string]|[string, unknown]''"
  by (simp add: generateTypeT_unfold generateTypeUnmemoized_def generateRawType_def leaf_def
      T_STRING_def hasStandaloneName_def truthy_def generateTuple_def exampleOptions_def
      anyText_def tupleLoop.simps slice0_def paramsToString_def at_def addSpreadParam_def
      indexSignature_def)

text \<open>
  C10 (confirmed). A tuple whose \<open>maxItems\<close> is \<open>0\<close> is rendered as the same tuple with
  \<open>maxItems = -1\<close>, on a tree and in a store (\<^verbatim>\<open>ast.maxItems || -1\<close>).
\<close>

theorem zero_maxItems_is_unbounded:
  "generateTypeT e opts (Ast (Node (TTuple ps minItems 0 sp) name c d k))
     = generateTypeT e opts (Ast (Node (TTuple ps minItems (- 1) sp) name c d k))
   \<and> generateTypeFresh e opts h m (Node (TTuple rs minItems 0 rsp) name c d k)
     = generateTypeFresh e opts h m (Node (TTuple rs minItems (- 1) rsp) name c d k)"
  by (simp add: generateTypeT_unfold generateTypeFresh_def generateTypeUnmemoized_def
      generateRawType_def generateTuple_def renderKids_def hasStandaloneName_def)

theorem zero_maxItems_is_unbounded_witness:
  "generateTypeT exampleEnv exampleOptions (Ast (leaf (TTuple [Ast T_STRING] 2 0 None)))
     = ''[string, ...(unknown)[]]''
   \<and> generateTypeT exampleEnv exampleOptions (Ast (leaf (TTuple [Ast T_STRING] 2 (- 1) None)))
     = ''[string, ...(unknown)[]]''"
  using zero_maxItems_is_unbounded[of exampleEnv exampleOptions "[Ast T_STRING]" 2 None None None
      False None]
  by (simp add: generateTypeT_unfold generateTypeUnmemoized_def generateRawType_def leaf_def
      T_STRING_def hasStandaloneName_def truthy_def generateTuple_def exampleOptions_def
      anyText_def paramsToString_def addSpreadParam_def indexSignature_def)

section \<open>Running the model\<close>

named_theorems run \<open>definitions unfolded to run the model on a concrete input\<close>

declare atype_def [run] withPayload_def [run] withStandaloneName_def [run] withAst_def [run]
  truthy_def [run] T_ANY_def [run] T_UNKNOWN_def [run] T_STRING_def [run] T_INTERFACE_def [run]
  nl_def [run] sq_def [run] filterBoolean_def [run] uniqBy_def [run] slice0_def [run] at_def [run]
  endsWith_def [run] identStart_def [run] wordChar_def [run] indexSignature_def [run]
  escapeKeyName_def [run] generateComment_def [run] isAnnotatedString_def [run]
  getMapEntryPrefix_def [run] getter_def [run] generateEndNodes_def [run]
  hasStandaloneName_def [run] setParams_def [run] orElse_def [run]
  handleUnionRecursively_def [run] commentOf_def [run] plainField_def [run]
  interfaceParam_def [run] reachableParams_def [run] generateInterface_def [run]
  generateSetOperation_def [run] paramsToString_def [run] addSpreadParam_def [run]
  tupleLoop.simps [run] anyText_def [run] generateTuple_def [run] generateRawType_def [run]
  generateTypeUnmemoized_def [run] renderKids_def [run] generateTypeT_unfold [run]
  omitStandaloneName_def [run] stringWithComment_def [run] namedString_def [run]
  withParams_def [run] interfaceParams_def [run] dropNull_def [run] collapse_def [run]
  keepNamed_def [run] uniqParams_def [run] pushParam_def [run] mergeParams_def [run]
  allInterfaces_def [run] unnameString_def [run] dedupT_def [run] optimizeSet_def [run]
  optimizeT.simps [run] exampleEnv_def [run] exampleOptions_def [run] leaf_def [run]
  Let_def [run]

section \<open>Lists: \<^verbatim>\<open>uniqBy\<close> and the merge of members\<close>

lemma uniqByAcc_seen_cong: "set seen = set seen' \<Longrightarrow> uniqByAcc f seen xs = uniqByAcc f seen' xs"
proof (induction xs arbitrary: seen seen')
  case (Cons x xs)
  from Cons.prems have "set (f x # seen) = set (f x # seen')" by simp
  then have "uniqByAcc f (f x # seen) xs = uniqByAcc f (f x # seen') xs" by (rule Cons.IH)
  moreover have "uniqByAcc f seen xs = uniqByAcc f seen' xs" using Cons.prems by (rule Cons.IH)
  ultimately show ?case using Cons.prems by simp
qed simp

lemma uniqByAcc_keys: "set (map f (uniqByAcc f seen xs)) = set (map f xs) - set seen"
  by (induction xs arbitrary: seen) auto

lemma uniqByAcc_distinct: "distinct (map f (uniqByAcc f seen xs))"
proof (induction xs arbitrary: seen)
  case (Cons x xs)
  have "f x \<notin> f ` set (uniqByAcc f (f x # seen) xs)"
    using uniqByAcc_keys[of f "f x # seen" xs] by auto
  with Cons show ?case by simp
qed simp

lemma uniqByAcc_subset: "set (uniqByAcc f seen xs) \<subseteq> set xs"
  by (induction xs arbitrary: seen) auto

lemma uniqByAcc_length: "length (uniqByAcc f seen xs) \<le> length xs"
  by (induction xs arbitrary: seen) (auto simp: le_SucI)

lemma uniqByAcc_same_length:
  "length (uniqByAcc f seen xs) = length xs \<Longrightarrow> uniqByAcc f seen xs = xs"
proof (induction xs arbitrary: seen)
  case (Cons x xs)
  show ?case
  proof (cases "f x \<in> set seen")
    case True
    with Cons.prems uniqByAcc_length[of f seen xs] show ?thesis by simp
  next
    case False
    with Cons show ?thesis by simp
  qed
qed simp

lemma uniqByAcc_fixed:
  "distinct (map f xs) \<Longrightarrow> set (map f xs) \<inter> set seen = {} \<Longrightarrow> uniqByAcc f seen xs = xs"
  by (induction xs arbitrary: seen) auto

lemma uniqBy_idem: "uniqBy f (uniqBy f xs) = uniqBy f xs"
  unfolding uniqBy_def by (rule uniqByAcc_fixed) (simp_all add: uniqByAcc_distinct)

lemma uniqByAcc_zip:
  "map fst (uniqByAcc snd seen (zip ps (map f ps))) = uniqByAcc f seen ps"
  by (induction ps arbitrary: seen) auto

lemma uniqParams_uniqBy: "uniqParams (map f ps) ps = uniqBy f ps"
proof -
  have m: "map fst (uniqBy snd (zip ps (map f ps))) = uniqBy f ps"
    by (simp add: uniqBy_def uniqByAcc_zip)
  show ?thesis
    unfolding uniqParams_def Let_def m
    using uniqByAcc_same_length[of f "[]" ps] by (auto simp: uniqBy_def)
qed

lemma foldl_pushParam:
  "foldl pushParam acc xs = acc @ uniqByAcc p_keyName (map p_keyName acc) xs"
proof (induction xs arbitrary: acc)
  case (Cons x xs)
  show ?case
  proof (cases "\<exists>a \<in> set acc. p_keyName a = p_keyName x")
    case True
    then have "p_keyName x \<in> set (map p_keyName acc)" by (auto simp: image_iff) metis
    with True Cons show ?thesis by (simp add: pushParam_def)
  next
    case False
    then have n: "p_keyName x \<notin> set (map p_keyName acc)" by (auto simp: image_iff)
    have "uniqByAcc p_keyName (map p_keyName (acc @ [x])) xs
        = uniqByAcc p_keyName (p_keyName x # map p_keyName acc) xs"
      by (rule uniqByAcc_seen_cong) auto
    with False n Cons[of "acc @ [x]"] show ?thesis by (simp add: pushParam_def)
  qed
qed simp

lemma foldl_foldl_concat: "foldl (\<lambda>acc xs. foldl g acc xs) a xss = foldl g a (concat xss)"
  by (induction xss arbitrary: a) auto

lemma mergeParams_uniqBy:
  "mergeParams look ps = uniqBy p_keyName (concat (map (\<lambda>p. interfaceParams (look p)) ps))"
proof -
  have "mergeParams look ps
      = foldl (\<lambda>acc xs. foldl pushParam acc xs) [] (map (\<lambda>p. interfaceParams (look p)) ps)"
    by (simp add: mergeParams_def foldl_map)
  also have "\<dots> = foldl pushParam [] (concat (map (\<lambda>p. interfaceParams (look p)) ps))"
    by (rule foldl_foldl_concat)
  also have "\<dots> = uniqBy p_keyName (concat (map (\<lambda>p. interfaceParams (look p)) ps))"
    unfolding foldl_pushParam uniqBy_def by simp
  finally show ?thesis .
qed

lemma uniqByAcc_find:
  "find (\<lambda>x. f x = k) (uniqByAcc f seen xs)
     = (if k \<in> set seen then None else find (\<lambda>x. f x = k) xs)"
  by (induction xs arbitrary: seen) auto

lemma uniqBy_find: "find (\<lambda>x. f x = k) (uniqBy f xs) = find (\<lambda>x. f x = k) xs"
  by (simp add: uniqBy_def uniqByAcc_find)

lemma uniqBy_distinct: "distinct (map f (uniqBy f xs))"
  by (simp add: uniqBy_def uniqByAcc_distinct)

section \<open>The rules of a \<open>Union\<close> or \<open>Intersection\<close>\<close>

lemma dropNull_filter: "dropNull look ps = filter (\<lambda>p. atype (look p) \<noteq> NULL) ps"
  by (auto simp: dropNull_def filter_id_conv)

lemma optimizeT_set:
  assumes "payload n = TUnion ps \<or> payload n = TIntersection ps"
  shows "optimizeT e opts (Ast n) = optimizeSet e opts n (map (optimizeT e opts) ps)"
  using assms by (auto simp: optimizeT.simps)



text \<open>
  C4 (corrected). When rules (a) to (f) leave more than one parameter and every one is
  an \<open>Interface\<close>, the result is the set node itself, with one parameter: the anonymous
  \<open>Interface\<close> whose members are the members of all parameters, the first member of
  every key name. The two interfaces of the example give \<open>Union[Interface{a, b}]\<close>, a
  \<open>Union\<close> around the merged interface and not the interface.
\<close>

theorem interfaces_merged_inside_set:
  assumes "payload n = TUnion ps \<or> payload n = TIntersection ps"
    and "collapse unAst n (nonNullParams e opts ps) = None"
    and "qs = dedupT e opts (nonNullParams e opts ps)"
    and "length qs > 1"
    and "\<forall>q \<in> set qs. atype (unAst q) = INTERFACE"
  shows "optimizeT e opts (Ast n)
           = Ast (withParams [Ast (T_INTERFACE (mergeParams unAst qs) (comment n))] n)
       \<and> distinct (map p_keyName (mergeParams unAst qs))
       \<and> (\<forall>k. find (\<lambda>m. p_keyName m = k) (mergeParams unAst qs)
                = find (\<lambda>m. p_keyName m = k) (allParams qs))"
proof -
  have o: "optimizeT e opts (Ast n) = optimizeSet e opts n (map (optimizeT e opts) ps)"
    using assms(1) by (rule optimizeT_set)
  have d: "dropNull unAst (map (optimizeT e opts) ps) = nonNullParams e opts ps"
    by (simp add: nonNullParams_def dropNull_filter)
  have a: "allInterfaces unAst qs" using assms(4,5) by (simp add: allInterfaces_def)
  have 1: "optimizeT e opts (Ast n)
           = Ast (withParams [Ast (T_INTERFACE (mergeParams unAst qs) (comment n))] n)"
    unfolding o optimizeSet_def Let_def d using assms(2) a by (simp add: assms(3))
  have m: "mergeParams unAst qs = uniqBy p_keyName (allParams qs)"
    by (simp add: mergeParams_uniqBy allParams_def)
  show ?thesis using 1 by (simp add: m uniqBy_distinct uniqBy_find)
qed

theorem interfaces_merged_inside_set_witness:
  "payload (leaf (TUnion [exA, exB])) = TUnion [exA, exB]
   \<and> collapse unAst (leaf (TUnion [exA, exB])) (nonNullParams exampleEnv exampleOptions [exA, exB]) = None
   \<and> dedupT exampleEnv exampleOptions (nonNullParams exampleEnv exampleOptions [exA, exB]) = [exA, exB]
   \<and> optimizeT exampleEnv exampleOptions (Ast (leaf (TUnion [exA, exB]))) = Ast (leaf (TUnion [exAB]))"
proof -
  have n: "nonNullParams exampleEnv exampleOptions [exA, exB] = [exA, exB]"
    by (simp add: nonNullParams_def run exA_def exB_def)
  have c: "collapse unAst (leaf (TUnion [exA, exB])) [exA, exB] = None"
    by (simp add: run exA_def exB_def)
  have d: "dedupT exampleEnv exampleOptions [exA, exB] = [exA, exB]"
    by (simp add: run exA_def exB_def)
  have i: "\<forall>q \<in> set [exA, exB]. atype (unAst q) = INTERFACE"
    by (simp add: run exA_def exB_def)
  have m: "Ast (withParams [Ast (T_INTERFACE (mergeParams unAst [exA, exB])
               (comment (leaf (TUnion [exA, exB]))))] (leaf (TUnion [exA, exB])))
           = Ast (leaf (TUnion [exAB]))"
    by (simp add: run exA_def exB_def exAB_def)
  from interfaces_merged_inside_set[of "leaf (TUnion [exA, exB])" "[exA, exB]" exampleEnv
      exampleOptions "[exA, exB]"] n c d i m
  show ?thesis by (simp add: leaf_def)
qed

theorem merged_result_is_a_union_counterexample:
  "atype (unAst (optimizeT exampleEnv exampleOptions (Ast (leaf (TUnion [exA, exB]))))) \<noteq> INTERFACE"
  by (simp add: run exA_def exB_def)

text \<open>
  C6 (confirmed). Rule (e): if some parameter has a name and the texts generated without
  the names are those of the first parameter, only the named parameters are kept. Rule
  (f): of the parameters left, the first of every generated text is kept, so no two have
  the same text. Of two nodes with the same text without names, one named and one not, the
  named one is left, in both orders; of two nodes without names and the same text, the
  first. The set node keeps these parameters unless the interface merge applies.
\<close>

lemma dedupT_alt:
  "dedupT e opts ps =
     uniqBy (generateTypeT e opts)
       (if (\<forall>p \<in> set ps. textWithoutName e opts p = textWithoutName e opts (hd ps))
           \<and> (\<exists>p \<in> set ps. isNamed p)
        then filter isNamed ps else ps)"
  unfolding dedupT_def Let_def keepNamed_def uniqParams_uniqBy textWithoutName_def
    isNamed_def[abs_def] ..

lemma omit_unnamed: "standaloneName n = None \<Longrightarrow> omitStandaloneName n = n"
  by (cases n) (simp add: omitStandaloneName_def withStandaloneName_def split: payload.splits)



section \<open>The visited set of \<^verbatim>\<open>optimize\<close>\<close>

lemma processed_assign [simp]: "processed (assign r f s) = processed s"
  by (simp add: assign_def)

lemma processed_alloc [simp]: "processed (snd (alloc n s)) = processed s"
  by (simp add: alloc_def)

lemma processed_returnNode [simp]: "processed (snd (returnNode n s)) = processed s"
  by (simp add: returnNode_def)

lemma processed_unnamed [simp]: "processed (snd (unnamed a s)) = processed s"
  by (simp add: unnamed_def)

lemma processed_unnameParams [simp]: "processed (snd (unnameParams ms s)) = processed s"
proof (induction ms arbitrary: s)
  case (Cons m ms)
  show ?case
    using Cons[of "snd (unnamed (p_ast m) s)"]
    by (simp add: split_beta Let_def)
qed simp

lemma processed_assignParamAst [simp]: "processed (assignParamAst r i a s) = processed s"
  by (simp add: assignParamAst_def)

lemma processed_dedupParams: "dedupParams e opts r s = Some s' \<Longrightarrow> processed s' = processed s"
  by (auto simp: dedupParams_def Let_def split: Option.bind_splits)

lemma optimizes_Nil [simp]: "optimizes e opts [] s = Some ([], s)"
  by (subst optimizes.simps) simp

lemma optimizes_Cons:
  "optimizes e opts ((r, dest) # rest) s =
     do {
       (r', s1) \<leftarrow> optimizeNode e opts (optimizes e opts) r s;
       (rs, s3) \<leftarrow> optimizes e opts rest
         (case dest of None \<Rightarrow> s1 | Some (owner, i) \<Rightarrow> assignParamAst owner i r' s1);
       Some (r' # rs, s3)
     }"
  by (subst optimizes.simps) (simp add: Let_def)

lemma optimizes_single:
  "optimizes e opts [(r, None)] s =
     do { (r', s1) \<leftarrow> optimizeNode e opts (optimizes e opts) r s; Some ([r'], s1) }"
  by (simp add: optimizes_Cons split_beta cong: Option.bind_cong)

lemma setRules_processed:
  assumes rec: "\<And>ts s rs s'. rec ts s = Some (rs, s') \<Longrightarrow> processed s \<subseteq> processed s'"
    and "setRules e opts rec r s c = Some (r', s')"
  shows "processed s \<subseteq> processed s'"
proof (cases c)
  case None
  with assms(2) obtain s4 where d: "dedupParams e opts r s = Some s4"
    and k: "(if allInterfaces (heap s4) (setParams (heap s4 r)) then
              (let (i, s5) = alloc (T_INTERFACE
                      (mergeParams (heap s4) (setParams (heap s4 r)))
                      (comment (heap s4 r))) s4
               in Some (r, assign r (withParams [i]) s5))
            else
              do {
                (ps'', s5) \<leftarrow> rec (map (\<lambda>p. (p, None)) (setParams (heap s4 r))) s4;
                Some (r, assign r (withParams ps'') s5)
              }) = Some (r', s')"
    by (auto simp: setRules_def split: Option.bind_splits)
  from processed_dedupParams[OF d] have p: "processed s4 = processed s" .
  show ?thesis
  proof (cases "allInterfaces (heap s4) (setParams (heap s4 r))")
    case True
    with k p show ?thesis by (auto simp: split_beta Let_def)
  next
    case False
    with k obtain ps'' s5 where "rec (map (\<lambda>p. (p, None)) (setParams (heap s4 r))) s4 = Some (ps'', s5)"
      and "s' = assign r (withParams ps'') s5"
      by (auto split: Option.bind_splits)
    with rec[of _ s4 ps'' s5] p show ?thesis by auto
  qed
next
  case (Some result)
  with assms(2) show ?thesis by (auto simp: setRules_def prod_eq_iff)
qed

lemma processed_arrayRule [simp]: "processed (arrayRule r el s) = processed s"
  by (simp add: arrayRule_def Let_def split_beta)

lemma processed_interfaceRule [simp]: "processed (interfaceRule r s) = processed s"
  by (simp add: interfaceRule_def Let_def split_beta)

lemma processed_nullRule [simp]: "processed (nullRule r ps s) = processed s"
  by (simp add: nullRule_def Let_def)

lemma optimizeNode_processed:
  assumes rec: "\<And>ts s rs s'. rec ts s = Some (rs, s') \<Longrightarrow> processed s \<subseteq> processed s'"
    and "optimizeNode e opts rec r s = Some (r', s')"
  shows "insert r (processed s) \<subseteq> processed s'"
proof (cases "r \<in> processed s")
  case True
  with assms(2) show ?thesis by (auto simp: optimizeNode_def)
next
  case False
  let ?s0 = "s\<lparr>processed := insert r (processed s)\<rparr>"
  note stp = assms(2)[unfolded optimizeNode_def Let_def, simplified False if_False]
  have set: ?thesis if "payload (heap s r) = TUnion ps \<or> payload (heap s r) = TIntersection ps" for ps
  proof -
    from stp that obtain ps' s1 where a: "rec (map (\<lambda>p. (p, None)) (setParams (heap s r))) ?s0 = Some (ps', s1)"
      and b: "setRules e opts rec r (nullRule r ps' s1)
         (collapse (heap (nullRule r ps' s1)) (heap (nullRule r ps' s1) r)
            (setParams (heap (nullRule r ps' s1) r))) = Some (r', s')"
      by (auto simp: split_beta split: Option.bind_splits)
    from setRules_processed[OF _ b] rec have "processed (nullRule r ps' s1) \<subseteq> processed s'"
      by blast
    with rec[OF a] show ?thesis by auto
  qed
  show ?thesis
  proof (cases "payload (heap s r)")
    case (TArray el)
    with stp obtain els s1 where "rec [(el, None)] ?s0 = Some (els, s1)"
      and "s' = arrayRule r (hd els) s1"
      by (auto simp: split_beta split: Option.bind_splits)
    with rec[of _ ?s0 els s1] show ?thesis by auto
  next
    case (TTuple ps mn mx sp)
    with stp obtain ps' s1 where "rec (map (\<lambda>p. (p, None)) ps) ?s0 = Some (ps', s1)"
      and "s' = assign r (withParams ps') s1"
      by (auto simp: split_beta split: Option.bind_splits)
    with rec[of _ ?s0 ps' s1] show ?thesis by auto
  next
    case (TInterface ms sups)
    with stp obtain as s1 rs where a: "rec (map (\<lambda>i. (p_ast (ms ! i), Some (r, i))) [0..<length ms]) ?s0 = Some (as, s1)"
      and b: "rec [(r, None)] (interfaceRule r s1) = Some (rs, s')"
      by (auto simp: split_beta split: Option.bind_splits)
    with rec[OF a] rec[OF b] show ?thesis by auto
  next
    case (TUnion ps)
    then show ?thesis by (intro set[of ps]) simp
  next
    case (TIntersection ps)
    then show ?thesis by (intro set[of ps]) simp
  qed (use stp in \<open>auto simp: split_beta returnNode_def alloc_def split: if_splits\<close>)
qed

lemma optimizes_processed_mono:
  "optimizes e opts ts s = Some (rs, s') \<Longrightarrow> processed s \<subseteq> processed s'"
proof -
  have "processed s \<subseteq> processed (snd y)" if "optimizes e opts ts s = Some y" for y
    using that
  proof (induction e opts ts s y rule: optimizes.raw_induct[rotated 1, consumes 1, case_names step])
    case (step optimizes e opts ts s y)
    have rec: "processed s \<subseteq> processed s'" if "optimizes e opts ts s = Some (rs, s')" for ts s rs s'
      using step(1)[OF that] by simp
    show ?case
    proof (cases ts)
      case Nil
      with step(2) show ?thesis by auto
    next
      case (Cons t rest)
      obtain r dest where t: "t = (r, dest)" by (cases t)
      from step(2) Cons t obtain r' s1 rs s3 where
        a: "optimizeNode e opts (optimizes e opts) r s = Some (r', s1)"
        and b: "optimizes e opts rest
            (case dest of None \<Rightarrow> s1 | Some (owner, i) \<Rightarrow> assignParamAst owner i r' s1) = Some (rs, s3)"
        and y: "y = (r' # rs, s3)"
        by (auto simp: Let_def split: Option.bind_splits)
      from optimizeNode_processed[of "optimizes e opts" e opts r s r' s1] rec a
      have "processed s \<subseteq> processed s1" by blast
      moreover from rec[OF b] have "processed s1 \<subseteq> processed s3" by (auto split: option.splits)
      ultimately show ?thesis using y by auto
    qed
  qed
  from this[of "(rs, s')"] show "optimizes e opts ts s = Some (rs, s') \<Longrightarrow> processed s \<subseteq> processed s'"
    by simp
qed

named_theorems run_store \<open>definitions unfolded to run the model on a concrete store\<close>

declare store_def [run_store] alloc_def [run_store] returnNode_def [run_store] assign_def [run_store]
  refANY_def [run_store] refUNKNOWN_def [run_store] refSTRING_def [run_store] textOf_def [run_store]
  generateType_def [run_store] generateNode_def [run_store] generateTypeFresh_def [run_store]
  dedupParams_def [run_store] unnamed_def [run_store] withInterfaceParams_def [run_store]
  assignParamAst_def [run_store] arrayParams_def [run_store] arrayRule_def [run_store]
  interfaceRule_def [run_store] nullRule_def [run_store] setRules_def [run_store]
  optimizeNode_def [run_store] optimizes_Cons [run_store] optimize_def [run_store]
  split_beta [run_store]

text \<open>
  C9 (confirmed). A node that is in the visited set is returned as it is and the state is
  not changed, in whatever state the call is made. So the call of \<^verbatim>\<open>optimize\<close> that the
  \<open>Interface\<close> rule makes on the interface itself, after its members, returns the
  interface and changes nothing: the interface was put into the set at the start and the
  set only grows.
\<close>

theorem processed_node_is_returned:
  "(r \<in> processed s \<longrightarrow> optimize e opts r s = Some (r, s))
   \<and> (r \<notin> processed s \<and> payload (heap s r) = TInterface ms sups
        \<and> optimizes e opts (map (\<lambda>i. (p_ast (ms ! i), Some (r, i))) [0..<length ms])
             (s\<lparr>processed := insert r (processed s)\<rparr>) = Some (as, s1)
      \<longrightarrow> optimizes e opts [(r, None)] (interfaceRule r s1) = Some ([r], interfaceRule r s1)
          \<and> optimize e opts r s = Some (r, interfaceRule r s1))"
proof -
  have hit: "optimizes e opts [(r, None)] s = Some ([r], s)" if "r \<in> processed s" for r s
    using that by (simp add: optimizes_single optimizeNode_def)
  have 1: "optimize e opts r s = Some (r, s)" if "r \<in> processed s"
    using that by (simp add: optimize_def optimizeNode_def)
  have 2: "optimizes e opts [(r, None)] (interfaceRule r s1) = Some ([r], interfaceRule r s1)
          \<and> optimize e opts r s = Some (r, interfaceRule r s1)"
    if n: "r \<notin> processed s" and p: "payload (heap s r) = TInterface ms sups"
      and m: "optimizes e opts (map (\<lambda>i. (p_ast (ms ! i), Some (r, i))) [0..<length ms])
             (s\<lparr>processed := insert r (processed s)\<rparr>) = Some (as, s1)"
  proof -
    from optimizes_processed_mono[OF m] have "r \<in> processed (interfaceRule r s1)" by auto
    from hit[OF this] have self: "optimizes e opts [(r, None)] (interfaceRule r s1)
        = Some ([r], interfaceRule r s1)" .
    have "optimizeNode e opts (optimizes e opts) r s = Some (r, interfaceRule r s1)"
      using n p m self by (simp add: optimizeNode_def Let_def)
    then show ?thesis using self by (simp add: optimize_def)
  qed
  from 1 2 show ?thesis by blast
qed

theorem processed_node_is_returned_witness:
  "3 \<in> processed (exInterfaceStore\<lparr>processed := {3}\<rparr>)
   \<and> optimize exampleEnv exampleOptions 3 (exInterfaceStore\<lparr>processed := {3}\<rparr>)
       = Some (3, exInterfaceStore\<lparr>processed := {3}\<rparr>)
   \<and> 3 \<notin> processed exInterfaceStore
   \<and> payload (heap exInterfaceStore 3) = TInterface [TInterfaceParam ''a'' 4 True False False] []
   \<and> optimizes exampleEnv exampleOptions [(4, Some (3, 0))]
         (exInterfaceStore\<lparr>processed := insert 3 (processed exInterfaceStore)\<rparr>) \<noteq> None
   \<and> map_option fst (optimize exampleEnv exampleOptions 3 exInterfaceStore) = Some 3"
proof -
  have a: "3 \<in> processed (exInterfaceStore\<lparr>processed := {3}\<rparr>)" by simp
  have n: "3 \<notin> processed exInterfaceStore" by (simp add: exInterfaceStore_def store_def)
  have p: "payload (heap exInterfaceStore 3) = TInterface [TInterfaceParam ''a'' 4 True False False] []"
    by (simp add: exInterfaceStore_def store_def leaf_def)
  have m: "optimizes exampleEnv exampleOptions [(4, Some (3, 0))]
         (exInterfaceStore\<lparr>processed := insert 3 (processed exInterfaceStore)\<rparr>) \<noteq> None"
    by (simp add: run run_store exInterfaceStore_def)
  then obtain as s1 where m': "optimizes exampleEnv exampleOptions
         (map (\<lambda>i. (p_ast ([TInterfaceParam ''a'' 4 True False False] ! i), Some (3, i)))
            [0..<length [TInterfaceParam ''a'' (4::nat) True False False]])
         (exInterfaceStore\<lparr>processed := insert 3 (processed exInterfaceStore)\<rparr>) = Some (as, s1)"
    by auto
  note t = processed_node_is_returned[of 3 "exInterfaceStore\<lparr>processed := {3}\<rparr>" exampleEnv
      exampleOptions]
  note u = processed_node_is_returned[of 3 exInterfaceStore exampleEnv exampleOptions
      "[TInterfaceParam ''a'' 4 True False False]" "[]" as s1]
  from t a have 1: "optimize exampleEnv exampleOptions 3 (exInterfaceStore\<lparr>processed := {3}\<rparr>)
       = Some (3, exInterfaceStore\<lparr>processed := {3}\<rparr>)"
    by blast
  from u n p m' have "optimize exampleEnv exampleOptions 3 exInterfaceStore
      = Some (3, interfaceRule 3 s1)"
    by blast
  then have 2: "map_option fst (optimize exampleEnv exampleOptions 3 exInterfaceStore) = Some 3"
    by simp
  from a 1 n p m 2 show ?thesis by blast
qed

section \<open>The memo table of \<^verbatim>\<open>generateType\<close>\<close>

lemma generateTypes_Nil [simp]: "generateTypes e opts h c [] = Some ([], c)"
  by (subst generateTypes.simps) simp

lemma generateTypes_Cons:
  "generateTypes e opts h c (r # rest) =
     do {
       (t, c1) \<leftarrow> generateType e opts h c r;
       (ts, c2) \<leftarrow> generateTypes e opts h c1 rest;
       Some (t # ts, c2)
     }"
  by (subst generateTypes.simps) (simp add: generateType_def)




section \<open>\<^verbatim>\<open>generate\<close>\<close>

lemma declareEnumsList_Nil [simp]: "declareEnumsList e opts h [] st = Some ([], st)"
  by (subst declareEnumsList.simps) simp

lemma declareEnumsList_Cons:
  "declareEnumsList e opts h (r # rest) st =
     do {
       (t, st1) \<leftarrow> declareEnumsNode e opts h (declareEnumsList e opts h) r st;
       (ts, st2) \<leftarrow> declareEnumsList e opts h rest st1;
       Some (t # ts, st2)
     }"
  by (subst declareEnumsList.simps) simp

lemma declareNamedInterfacesList_Nil [simp]:
  "declareNamedInterfacesList e opts h root [] st = Some ([], st)"
  by (subst declareNamedInterfacesList.simps) simp

lemma declareNamedInterfacesList_Cons:
  "declareNamedInterfacesList e opts h root (r # rest) st =
     do {
       (t, st1) \<leftarrow> declareNamedInterfacesNode e opts h root
                      (declareNamedInterfacesList e opts h root) r st;
       (ts, st2) \<leftarrow> declareNamedInterfacesList e opts h root rest st1;
       Some (t # ts, st2)
     }"
  by (subst declareNamedInterfacesList.simps) simp

lemma declareNamedTypesList_Nil [simp]:
  "declareNamedTypesList e opts h root [] st = Some ([], st)"
  by (subst declareNamedTypesList.simps) simp

lemma declareNamedTypesList_Cons:
  "declareNamedTypesList e opts h root (r # rest) st =
     do {
       (t, st1) \<leftarrow> declareNamedTypesNode e opts h root (declareNamedTypesList e opts h root) r st;
       (ts, st2) \<leftarrow> declareNamedTypesList e opts h root rest st1;
       Some (t # ts, st2)
     }"
  by (subst declareNamedTypesList.simps) simp

declare generateTypes_Cons [run_store] nameOf_def [run_store] getSuperTypesAndParams_def [run_store]
  enumParams_def [run_store] superTypes_def [run_store] spreadList_def [run_store]
  tupleOrSetParams_def [run_store] arrayParam_def [run_store] startsWith_def [run_store]
  generateStandaloneEnum_def [run_store] generateStandaloneInterface_def [run_store]
  generateStandaloneType_def [run_store] standaloneTypeOf_def [run_store]
  declareEnumsNode_def [run_store] declareEnumsList_Cons [run_store]
  declareNamedInterfacesNode_def [run_store] declareNamedInterfacesList_Cons [run_store]
  declareNamedTypesNode_def [run_store] declareNamedTypesList_Cons [run_store]
  declareNamedTypes_def [run_store] declareNamedInterfaces_def [run_store]
  declareEnums_def [run_store] generate_def [run_store]


lemma exRoot_generate:
  "generate exampleEnv exampleOptions (heap exRootStore) 3 Map.empty
     = Some (prefix @ ''/* banner */'' @ nl @ nl @ ''export type Root = string'' @ nl, Map.empty)"
  by (simp add: run run_store exRootStore_def)



end
